theory Spec2Isabelle
  imports Complex_Main
begin

section \<open>JavaScript numbers\<close>

text \<open>
  The pump sizing function of \<^verbatim>\<open>netlify/functions/pump.js\<close> computes with JavaScript
  numbers. A number is modelled as a finite value, one of the two infinities, or NaN.
  Finite values are the reals: rounding, overflow and underflow of the double format and
  the sign of zero are not modelled (a zero divisor counts as \<open>+0\<close>). What is modelled is
  every place where the program leaves the finite numbers: division by zero, roots and
  logarithms outside their domain, and the way NaN and the infinities travel through
  comparisons, \<open>Math.max\<close>, \<open>Math.min\<close> and \<open>||\<close>.
\<close>

datatype jsnum = Fin real | PInf | NInf | NaN

fun isFinite :: "jsnum \<Rightarrow> bool" where
  "isFinite (Fin _) = True"
| "isFinite _ = False"

fun js_neg :: "jsnum \<Rightarrow> jsnum" where
  "js_neg (Fin a) = Fin (- a)"
| "js_neg PInf = NInf"
| "js_neg NInf = PInf"
| "js_neg NaN = NaN"

text \<open>The infinity with the sign of a nonzero real.\<close>

definition inf_sgn :: "real \<Rightarrow> jsnum" where
  "inf_sgn a = (if a = 0 then NaN else if 0 < a then PInf else NInf)"

fun js_add :: "jsnum \<Rightarrow> jsnum \<Rightarrow> jsnum" where
  "js_add (Fin a) (Fin b) = Fin (a + b)"
| "js_add NaN _ = NaN"
| "js_add _ NaN = NaN"
| "js_add PInf NInf = NaN"
| "js_add NInf PInf = NaN"
| "js_add PInf _ = PInf"
| "js_add NInf _ = NInf"
| "js_add _ PInf = PInf"
| "js_add _ NInf = NInf"

definition js_sub :: "jsnum \<Rightarrow> jsnum \<Rightarrow> jsnum" where
  "js_sub x y = js_add x (js_neg y)"

fun js_mul :: "jsnum \<Rightarrow> jsnum \<Rightarrow> jsnum" where
  "js_mul (Fin a) (Fin b) = Fin (a * b)"
| "js_mul NaN _ = NaN"
| "js_mul _ NaN = NaN"
| "js_mul (Fin a) PInf = inf_sgn a"
| "js_mul (Fin a) NInf = inf_sgn (- a)"
| "js_mul PInf (Fin b) = inf_sgn b"
| "js_mul NInf (Fin b) = inf_sgn (- b)"
| "js_mul PInf PInf = PInf"
| "js_mul NInf NInf = PInf"
| "js_mul PInf NInf = NInf"
| "js_mul NInf PInf = NInf"

text \<open>
  Division: a nonzero finite value over zero is an infinity, zero over zero is NaN, a
  finite value over an infinity is zero, an infinity over an infinity is NaN.
\<close>

fun js_div :: "jsnum \<Rightarrow> jsnum \<Rightarrow> jsnum" where
  "js_div (Fin a) (Fin b) = (if b = 0 then inf_sgn a else Fin (a / b))"
| "js_div NaN _ = NaN"
| "js_div _ NaN = NaN"
| "js_div (Fin a) PInf = Fin 0"
| "js_div (Fin a) NInf = Fin 0"
| "js_div PInf (Fin b) = (if 0 \<le> b then PInf else NInf)"
| "js_div NInf (Fin b) = (if 0 \<le> b then NInf else PInf)"
| "js_div PInf PInf = NaN"
| "js_div NInf NInf = NaN"
| "js_div PInf NInf = NaN"
| "js_div NInf PInf = NaN"

text \<open>Comparisons are false as soon as one side is NaN.\<close>

fun js_lt :: "jsnum \<Rightarrow> jsnum \<Rightarrow> bool" where
  "js_lt (Fin a) (Fin b) = (a < b)"
| "js_lt NaN _ = False"
| "js_lt _ NaN = False"
| "js_lt _ NInf = False"
| "js_lt PInf _ = False"
| "js_lt NInf _ = True"
| "js_lt _ PInf = True"

definition js_gt :: "jsnum \<Rightarrow> jsnum \<Rightarrow> bool" where
  "js_gt x y = js_lt y x"

fun js_le :: "jsnum \<Rightarrow> jsnum \<Rightarrow> bool" where
  "js_le (Fin a) (Fin b) = (a \<le> b)"
| "js_le NaN _ = False"
| "js_le _ NaN = False"
| "js_le NInf _ = True"
| "js_le _ PInf = True"
| "js_le _ NInf = False"
| "js_le PInf _ = False"

text \<open>Strict equality \<open>===\<close> on numbers: NaN is equal to nothing.\<close>

definition js_eq :: "jsnum \<Rightarrow> jsnum \<Rightarrow> bool" where
  "js_eq x y = (x \<noteq> NaN \<and> x = y)"

text \<open>\<open>Math.max\<close> and \<open>Math.min\<close> of two numbers: NaN if either is NaN.\<close>

definition js_max :: "jsnum \<Rightarrow> jsnum \<Rightarrow> jsnum" where
  "js_max x y = (if x = NaN \<or> y = NaN then NaN else if js_lt x y then y else x)"

definition js_min :: "jsnum \<Rightarrow> jsnum \<Rightarrow> jsnum" where
  "js_min x y = (if x = NaN \<or> y = NaN then NaN else if js_lt y x then y else x)"

text \<open>\<open>x || y\<close> on numbers: the falsy numbers are zero and NaN.\<close>

definition js_or :: "jsnum \<Rightarrow> jsnum \<Rightarrow> jsnum" where
  "js_or x y = (if x = Fin 0 \<or> x = NaN then y else x)"

text \<open>
  \<open>Math.pow(x, y)\<close> for a finite exponent \<open>y\<close>; the program only ever passes a numeric
  literal as exponent. A negative base has a power only for an integer exponent.
\<close>

definition js_pow :: "jsnum \<Rightarrow> real \<Rightarrow> jsnum" where
  "js_pow x y =
     (if y = 0 then Fin 1
      else case x of
        NaN \<Rightarrow> NaN
      | PInf \<Rightarrow> (if 0 < y then PInf else Fin 0)
      | NInf \<Rightarrow> (if y < 0 then Fin 0
                 else if y \<in> \<int> \<and> odd \<lfloor>y\<rfloor> then NInf else PInf)
      | Fin a \<Rightarrow>
          (if 0 < a then Fin (a powr y)
           else if a = 0 then (if 0 < y then Fin 0 else PInf)
           else if y \<in> \<int> then Fin (a powi \<lfloor>y\<rfloor>) else NaN))"

fun js_sqrt :: "jsnum \<Rightarrow> jsnum" where
  "js_sqrt (Fin a) = (if 0 \<le> a then Fin (sqrt a) else NaN)"
| "js_sqrt PInf = PInf"
| "js_sqrt NInf = NaN"
| "js_sqrt NaN = NaN"

fun js_log10 :: "jsnum \<Rightarrow> jsnum" where
  "js_log10 (Fin a) = (if 0 < a then Fin (log 10 a) else if a = 0 then NInf else NaN)"
| "js_log10 PInf = PInf"
| "js_log10 NInf = NaN"
| "js_log10 NaN = NaN"

fun js_exp :: "jsnum \<Rightarrow> jsnum" where
  "js_exp (Fin a) = Fin (exp a)"
| "js_exp PInf = PInf"
| "js_exp NInf = Fin 0"
| "js_exp NaN = NaN"

text \<open>
  \<open>+x.toFixed(d)\<close>: the decimal with \<open>d\<close> fraction digits nearest to \<open>x\<close>, the larger
  magnitude on a tie, read back as a number. From \<open>10^21\<close> on, and for NaN and the
  infinities, \<open>toFixed\<close> prints the number itself.
\<close>

definition toFixed :: "nat \<Rightarrow> jsnum \<Rightarrow> jsnum" where
  "toFixed d x =
     (case x of
        Fin a \<Rightarrow> (if 10 ^ 21 \<le> \<bar>a\<bar> then Fin a
                  else Fin (sgn a * of_int \<lfloor>\<bar>a\<bar> * 10 ^ d + 1 / 2\<rfloor> / 10 ^ d))
      | _ \<Rightarrow> x)"

section \<open>The request payload and its validation\<close>

text \<open>
  The handler parses the request body with \<open>JSON.parse\<close> and reads eight keys of the
  resulting object. The payload is that object: a map from keys to JSON values, where a
  missing key reads as \<open>undefined\<close> (here \<open>None\<close>). \<open>JObject\<close> stands for arrays and
  objects, whose content the handler never looks at.
\<close>

datatype jsval = JNull | JBool bool | JNumber jsnum | JString string | JObject

type_synonym payload = "string \<rightharpoonup> jsval"

datatype error =
    ValidationError string  \<comment> \<open>status 400, with the \<open>error\<close> string of the body\<close>
  | ServerError             \<comment> \<open>status 500, from the \<open>catch\<close> block\<close>

text \<open>The object \<open>numbers\<close>: the eight locals under their own names, in source order.\<close>

definition numbers :: "payload \<Rightarrow> (string \<times> jsval option) list" where
  "numbers p =
     [(''N'', p ''n''), (''Q'', p ''q''), (''TDHm'', p ''tdhm''), (''NPSHA'', p ''npsha''),
      (''SucType'', p ''suctype''), (''SG'', p ''sg''),
      (''NumImpellers'', p ''num_impellers''), (''Viscosity'', p ''viscosity'')]"

definition typeof_number :: "jsval option \<Rightarrow> bool" where
  "typeof_number v = (case v of Some (JNumber _) \<Rightarrow> True | _ \<Rightarrow> False)"

definition Number_isNaN :: "jsval option \<Rightarrow> bool" where
  "Number_isNaN v = (v = Some (JNumber NaN))"

definition Number_isFinite :: "jsval option \<Rightarrow> bool" where
  "Number_isFinite v = (case v of Some (JNumber x) \<Rightarrow> isFinite x | _ \<Rightarrow> False)"

definition invalid_message :: "string \<Rightarrow> string" where
  "invalid_message k = ''Invalid or missing number for '' @ [CHR 0x27] @ k @ [CHR 0x27]"

text \<open>The validation loop: the first entry that fails ends the request.\<close>

fun validate :: "(string \<times> jsval option) list \<Rightarrow> error option" where
  "validate [] = None"
| "validate ((k, v) # rest) =
     (if \<not> typeof_number v \<or> Number_isNaN v \<or> \<not> Number_isFinite v
      then Some (ValidationError (invalid_message k))
      else validate rest)"

text \<open>The eight locals of a payload that passed the loop: finite numbers.\<close>

record PumpInput =
  inN :: real
  inQ :: real
  inTDHm :: real
  inNPSHA :: real
  inSucType :: real
  inSG :: real
  inNumImpellers :: real
  inViscosity :: real

definition finite_number :: "jsval option \<Rightarrow> real option" where
  "finite_number v = (case v of Some (JNumber (Fin a)) \<Rightarrow> Some a | _ \<Rightarrow> None)"

definition destructure :: "payload \<Rightarrow> PumpInput option" where
  "destructure p =
     Option.bind (finite_number (p ''n'')) (\<lambda>vN.
     Option.bind (finite_number (p ''q'')) (\<lambda>vQ.
     Option.bind (finite_number (p ''tdhm'')) (\<lambda>vTDHm.
     Option.bind (finite_number (p ''npsha'')) (\<lambda>vNPSHA.
     Option.bind (finite_number (p ''suctype'')) (\<lambda>vSucType.
     Option.bind (finite_number (p ''sg'')) (\<lambda>vSG.
     Option.bind (finite_number (p ''num_impellers'')) (\<lambda>vNumImpellers.
     Option.bind (finite_number (p ''viscosity'')) (\<lambda>vViscosity.
       Some \<lparr>inN = vN, inQ = vQ, inTDHm = vTDHm, inNPSHA = vNPSHA, inSucType = vSucType,
             inSG = vSG, inNumImpellers = vNumImpellers,
             inViscosity = vViscosity\<rparr>))))))))"

section \<open>The sizing formulas\<close>

text \<open>Each \<open>const\<close> of the handler's body is a function of the validated input.\<close>

definition HeadStage :: "PumpInput \<Rightarrow> jsnum" where
  "HeadStage i = js_div (Fin (inTDHm i)) (Fin (inNumImpellers i))"

definition AngVel :: "PumpInput \<Rightarrow> jsnum" where
  "AngVel i = js_mul (js_div (Fin pi) (Fin 30)) (Fin (inN i))"

definition Ns :: "PumpInput \<Rightarrow> jsnum" where
  "Ns i = js_div (js_mul (Fin (inN i)) (js_pow (js_div (Fin (inQ i)) (Fin 3600)) 0.5))
                 (js_pow (HeadStage i) 0.75)"

definition Uns :: "PumpInput \<Rightarrow> jsnum" where
  "Uns i = js_div (Ns i) (Fin 52.919)"

definition Nss :: "PumpInput \<Rightarrow> jsnum" where
  "Nss i = js_div
     (js_mul (Fin (inN i))
        (js_pow (js_div (js_div (Fin (inQ i)) (Fin (inSucType i))) (Fin 3600)) 0.5))
     (js_pow (Fin (inNPSHA i)) 0.75)"

definition UNss :: "PumpInput \<Rightarrow> jsnum" where
  "UNss i = js_div (Nss i) (Fin 52.919)"

definition Phi :: "PumpInput \<Rightarrow> jsnum" where
  "Phi i = (if js_gt (Uns i) (Fin 1) then js_div (Fin 0.4) (js_pow (Uns i) 0.5)
            else js_div (Fin 0.4) (js_pow (Uns i) 0.25))"

definition r2 :: "PumpInput \<Rightarrow> jsnum" where
  "r2 i = js_mul (js_div (Fin 1) (AngVel i))
            (js_sqrt (js_div (js_mul (Fin 9.81) (HeadStage i)) (Phi i)))"

definition ImpDia :: "PumpInput \<Rightarrow> jsnum" where
  "ImpDia i = js_mul (js_mul (r2 i) (Fin 2)) (Fin 1000)"

definition U2 :: "PumpInput \<Rightarrow> jsnum" where
  "U2 i = js_mul (AngVel i) (js_div (js_div (ImpDia i) (Fin 2)) (Fin 1000))"

definition Qus :: "PumpInput \<Rightarrow> jsnum" where
  "Qus i = js_mul (Fin (inQ i)) (Fin 4.402867)"

definition Nus :: "PumpInput \<Rightarrow> jsnum" where
  "Nus i = js_mul (Ns i) (Fin 51.66)"

text \<open>\<open>Eff\<close> as first assigned, and after \<open>Eff -= 0.005 * (NumImpellers - 1)\<close>.\<close>

definition Eff_initial :: "PumpInput \<Rightarrow> jsnum" where
  "Eff_initial i =
     js_sub
       (js_sub (Fin 0.94)
          (js_mul (Fin 0.08955) (js_pow (js_div (Qus i) (Fin (inN i))) (- 0.2133))))
       (js_mul (Fin 0.29) (js_pow (js_log10 (js_div (Fin 2286) (Nus i))) 2))"

definition Eff :: "PumpInput \<Rightarrow> jsnum" where
  "Eff i = js_sub (Eff_initial i)
             (js_mul (Fin 0.005) (js_sub (Fin (inNumImpellers i)) (Fin 1)))"

definition kW :: "PumpInput \<Rightarrow> jsnum" where
  "kW i = js_div (js_mul (js_mul (Fin (inQ i)) (Fin (inTDHm i))) (Fin (inSG i)))
                 (js_mul (Fin 367.63) (Eff i))"

definition Re_number :: "PumpInput \<Rightarrow> jsnum" where
  "Re_number i = js_div
     (js_mul (js_pow (js_div (js_div (Fin (inQ i)) (Fin (inSucType i))) (Fin 3600)) 0.5)
             (js_pow (js_mul (Fin 9.81) (HeadStage i)) 0.25))
     (js_mul (Fin (inViscosity i)) (Fin (1 / 10 ^ 6)))"

text \<open>
  The flow factor is the constant 1; the four \<open>cq_\<close> constants of the source are
  declared and never read.
\<close>

record ViscousCorrection =
  CQ :: jsnum
  CH :: jsnum
  CE :: jsnum

definition calculateViscousCorrection :: "jsnum \<Rightarrow> ViscousCorrection" where
  "calculateViscousCorrection re =
     (let ch_a = 1.004; ch_b = 1.391; ch_c = 0.394; ch_d = 0.233;
          ce_a = 1.016; ce_b = 2.848; ce_c = 0.369; ce_d = 0.204;
          Ch = js_sub (Fin ch_a)
                 (js_mul (Fin ch_b) (js_exp (js_mul (Fin (- ch_c)) (js_pow re ch_d))));
          Ce = js_sub (Fin ce_a)
                 (js_mul (Fin ce_b) (js_exp (js_mul (Fin (- ce_c)) (js_pow re ce_d))));
          Cq = Fin 1
      in \<lparr>CQ = Cq, CH = Ch, CE = Ce\<rparr>)"

text \<open>The chain that sets \<open>Nstatus\<close> and \<open>statusText\<close>.\<close>

definition Ns_status :: "jsnum \<Rightarrow> string \<times> string" where
  "Ns_status ns =
     (if js_gt ns (Fin 175) then (''Ns7'', ''Very High Ns'')
      else if js_gt ns (Fin 100) then (''Ns6'', ''High Ns'')
      else if js_gt ns (Fin 80) then (''Ns5'', ''Medium-High Ns'')
      else if js_gt ns (Fin 60) then (''Ns4'', ''Medium Ns'')
      else if js_gt ns (Fin 40) then (''Ns3'', ''Medium-Low Ns'')
      else if js_gt ns (Fin 20) then (''Ns2'', ''Low Ns'')
      else (''Ns1'', ''Very Low Ns''))"

definition Nstatus :: "PumpInput \<Rightarrow> string" where
  "Nstatus i = fst (Ns_status (Ns i))"

datatype warning = Warning string bool  \<comment> \<open>\<open>text\<close> and \<open>critical\<close>\<close>

definition generateWarnings :: "jsnum \<Rightarrow> jsnum \<Rightarrow> jsnum \<Rightarrow> jsnum \<Rightarrow> warning list" where
  "generateWarnings ns u2 npsha nss =
     (if js_lt ns (Fin 20) then [Warning ''Ns is too low!'' True]
      else if js_gt ns (Fin 250)
        then [Warning ''Ns is too high - cannot build this pump'' True]
      else [])
     @ (if js_gt u2 (Fin 55) then [Warning ''Tip speed too high for dirty service'' True]
        else [])
     @ (if js_gt npsha (Fin 10) then [Warning ''You have more NPSHA than needed'' False]
        else [])
     @ (if js_gt nss (Fin 213)
          then [Warning ''Suction specific speed (Nss) is too high'' True]
        else if js_lt nss (Fin 50)
          then [Warning ''Suction specific speed (Nss) is very low'' False]
        else [])"

section \<open>The performance curve\<close>

record coeffs =
  coef_a :: real
  coef_b :: real
  coef_c :: real
  coef_d :: real
  coef_e :: real
  coef_f :: real

text \<open>
  The three tables of \<open>curveCoefficients\<close>, keyed by the \<open>Nstatus\<close> string. Reading a
  key that a table does not have yields \<open>undefined\<close>, and the first use of its
  coefficients throws.
\<close>

definition head_coefficients :: "(string \<times> coeffs) list" where
  "head_coefficients =
    [(''Ns1'', \<lparr>coef_a = 120.8, coef_b = - 0.21384782, coef_c = 0.010905096,
        coef_d = - 0.00021595602, coef_e = 1.3648307 / 10 ^ 6, coef_f = - 2.8993229 / 10 ^ 9\<rparr>),
     (''Ns2'', \<lparr>coef_a = 142, coef_b = - 0.223337, coef_c = - 0.0055263614,
        coef_d = 0.00018385812, coef_e = - 2.3572357 / 10 ^ 6, coef_f = 8.7462759 / 10 ^ 9\<rparr>),
     (''Ns3'', \<lparr>coef_a = 160, coef_b = - 0.40244256, coef_c = - 0.0057075647,
        coef_d = 0.00014007848, coef_e = - 1.5704207 / 10 ^ 6, coef_f = 5.4283494 / 10 ^ 9\<rparr>),
     (''Ns4'', \<lparr>coef_a = 175, coef_b = - 0.56557259, coef_c = - 0.0068800616,
        coef_d = 0.00019610839, coef_e = - 2.3296197 / 10 ^ 6, coef_f = 8.7211455 / 10 ^ 9\<rparr>),
     (''Ns5'', \<lparr>coef_a = 185, coef_b = - 1.4234848, coef_c = 0.015568182,
        coef_d = 0.00015742424, coef_e = - 4.6181818 / 10 ^ 6, coef_f = 2.0606061 / 10 ^ 8\<rparr>),
     (''Ns6'', \<lparr>coef_a = 225, coef_b = - 1.2501499, coef_c = - 0.068654179,
        coef_d = 0.0024996503, coef_e = - 2.7729337 / 10 ^ 5, coef_f = 9.5984016 / 10 ^ 8\<rparr>),
     (''Ns7'', \<lparr>coef_a = 380, coef_b = - 4.3295704, coef_c = - 0.11964691,
        coef_d = 0.0044487801, coef_e = - 4.5967011 / 10 ^ 5, coef_f = 1.4973471 / 10 ^ 7\<rparr>)]"

definition efficiency_coefficients :: "(string \<times> coeffs) list" where
  "efficiency_coefficients =
    [(''Ns1'', \<lparr>coef_a = 0, coef_b = 2.4445788, coef_c = - 0.014159341,
        coef_d = - 0.00012353846, coef_e = 1.869011 / 10 ^ 6, coef_f = - 6.6227106 / 10 ^ 9\<rparr>),
     (''Ns2'', \<lparr>coef_a = 0, coef_b = 2.2298868, coef_c = - 0.010668343,
        coef_d = - 9.6486402 / 10 ^ 5, coef_e = 1.1941303 / 10 ^ 6, coef_f = - 3.9231879 / 10 ^ 9\<rparr>),
     (''Ns3'', \<lparr>coef_a = 0, coef_b = 2.5249317, coef_c = - 0.032144311,
        coef_d = 0.00039017405, coef_e = - 3.1181796 / 10 ^ 6, coef_f = 9.0593851 / 10 ^ 9\<rparr>),
     (''Ns4'', \<lparr>coef_a = 0, coef_b = 2.2583217, coef_c = - 0.023349029,
        coef_d = 0.00024363947, coef_e = - 1.8396892 / 10 ^ 6, coef_f = 4.7987568 / 10 ^ 9\<rparr>),
     (''Ns5'', \<lparr>coef_a = 0, coef_b = 2.4710846, coef_c = - 0.032865937,
        coef_d = 0.00046168625, coef_e = - 4.0147 / 10 ^ 6, coef_f = 1.2133467 / 10 ^ 8\<rparr>),
     (''Ns6'', \<lparr>coef_a = 0, coef_b = 1.7089419, coef_c = - 0.0089007132,
        coef_d = 6.4419969 / 10 ^ 5, coef_e = - 4.1622822 / 10 ^ 7, coef_f = - 4.6842047 / 10 ^ 10\<rparr>),
     (''Ns7'', \<lparr>coef_a = 0, coef_b = 1.4879138, coef_c = - 0.0017261461,
        coef_d = - 0.00010420124, coef_e = 1.4956333 / 10 ^ 6, coef_f = - 7.6891997 / 10 ^ 9\<rparr>)]"

definition npsh_coefficients :: "(string \<times> coeffs) list" where
  "npsh_coefficients =
    [(''Ns1'', \<lparr>coef_a = 48, coef_b = 0.23681818, coef_c = - 0.014001515,
        coef_d = 0.00039790909, coef_e = - 3.9684848 / 10 ^ 6, coef_f = 1.6727273 / 10 ^ 8\<rparr>),
     (''Ns2'', \<lparr>coef_a = 72, coef_b = 0.061821512, coef_c = - 0.015774015,
        coef_d = 0.00034247242, coef_e = - 2.9996848 / 10 ^ 6, coef_f = 1.3705406 / 10 ^ 8\<rparr>),
     (''Ns3'', \<lparr>coef_a = 98, coef_b = - 0.32168731, coef_c = - 0.034086057,
        coef_d = 0.00083099627, coef_e = - 7.1443383 / 10 ^ 6, coef_f = 2.5846687 / 10 ^ 8\<rparr>),
     (''Ns4'', \<lparr>coef_a = 120, coef_b = - 0.83951382, coef_c = - 0.011862737,
        coef_d = 0.00035402331, coef_e = - 3.2840759 / 10 ^ 6, coef_f = 1.5696304 / 10 ^ 8\<rparr>),
     (''Ns5'', \<lparr>coef_a = 186, coef_b = - 0.72372627, coef_c = - 0.050911699,
        coef_d = 0.0011401943, coef_e = - 1.1171744 / 10 ^ 5, coef_f = 4.7246975 / 10 ^ 8\<rparr>),
     (''Ns6'', \<lparr>coef_a = 403, coef_b = - 3.4442574, coef_c = - 0.063122994,
        coef_d = 0.0019938438, coef_e = - 2.4935358 / 10 ^ 5, coef_f = 1.1723477 / 10 ^ 7\<rparr>),
     (''Ns7'', \<lparr>coef_a = 1000, coef_b = - 6.9291126, coef_c = - 0.19079618,
        coef_d = 0.0035209596, coef_e = - 3.6734776 / 10 ^ 5, coef_f = 1.8533911 / 10 ^ 7\<rparr>)]"

definition lagrangianInterpolation :: "jsnum \<Rightarrow> coeffs \<Rightarrow> jsnum" where
  "lagrangianInterpolation x coefficients =
     js_add (js_add (js_add (js_add (js_add
       (Fin (coef_a coefficients))
       (js_mul (Fin (coef_b coefficients)) x))
       (js_mul (Fin (coef_c coefficients)) (js_pow x 2)))
       (js_mul (Fin (coef_d coefficients)) (js_pow x 3)))
       (js_mul (Fin (coef_e coefficients)) (js_pow x 4)))
       (js_mul (Fin (coef_f coefficients)) (js_pow x 5))"

record PerformanceData =
  flowPoints :: "jsnum list"
  headPoints :: "jsnum list"
  efficiencyPoints :: "jsnum list"
  npshPoints :: "jsnum list"
  powerPoints :: "jsnum list"
  flowPercentages :: "jsnum list"

text \<open>
  The divisor of a power point, \<open>367.63 * (eff / 100 || 0.01)\<close>, and the quotient the
  source writes twice, once for the point itself and once as \<open>powerAt20\<close>.
\<close>

definition powerDivisor :: "jsnum \<Rightarrow> jsnum" where
  "powerDivisor eff = js_mul (Fin 367.63) (js_or (js_div eff (Fin 100)) (Fin 0.01))"

definition pointPower :: "jsnum \<Rightarrow> jsnum \<Rightarrow> jsnum \<Rightarrow> jsnum \<Rightarrow> jsnum" where
  "pointPower flow h sg eff = js_div (js_mul (js_mul flow h) sg) (powerDivisor eff)"

text \<open>
  The callbacks of the head, efficiency and NPSH maps use only the index, to read
  \<open>flowPercentages[index]\<close>; they are maps over \<open>flowPercentages\<close>. The power map
  reads the other sequences by index.
\<close>

definition generatePerformanceData ::
  "jsnum \<Rightarrow> jsnum \<Rightarrow> jsnum \<Rightarrow> jsnum \<Rightarrow> string \<Rightarrow> jsnum \<Rightarrow> PerformanceData option" where
  "generatePerformanceData q tdhm eff npsha nstatus sg =
     (case (map_of head_coefficients nstatus, map_of efficiency_coefficients nstatus,
            map_of npsh_coefficients nstatus) of
        (Some headCoeffs, Some efficiencyCoeffs, Some npshCoeffs) \<Rightarrow>
          (let percentages = [Fin 0, Fin 25, Fin 50, Fin 75, Fin 100, Fin 130];
               flows = map (\<lambda>p. js_div (js_mul p q) (Fin 100)) percentages;
               heads = map (\<lambda>qPercent.
                   js_mul (lagrangianInterpolation qPercent headCoeffs)
                          (js_div tdhm (Fin 100))) percentages;
               effs = map (\<lambda>qPercent.
                   js_max (Fin 0) (js_min (Fin 100)
                     (js_mul (lagrangianInterpolation qPercent efficiencyCoeffs) eff)))
                   percentages;
               npshs = map (\<lambda>qPercent.
                   js_max (Fin 0)
                     (js_mul (lagrangianInterpolation qPercent npshCoeffs)
                             (js_div npsha (Fin 100)))) percentages;
               powers = map (\<lambda>k.
                   if js_eq (flows ! k) (Fin 0)
                   then js_mul (Fin 0.9) (pointPower (flows ! 1) (heads ! 1) sg (effs ! 1))
                   else pointPower (flows ! k) (heads ! k) sg (effs ! k))
                   [0 ..< length flows]
           in Some \<lparr>flowPoints = flows, headPoints = heads, efficiencyPoints = effs,
                    npshPoints = npshs, powerPoints = powers,
                    flowPercentages = percentages\<rparr>)
      | _ \<Rightarrow> None)"

section \<open>The alternate pump estimate\<close>

record NewPump =
  np_flow :: jsnum
  np_head :: jsnum
  np_ns :: jsnum
  np_impdia :: jsnum
  np_npsh :: jsnum
  np_speed :: jsnum
  np_efficiency :: jsnum
  np_hydpower :: jsnum

text \<open>
  The local \<open>newEfficiencyPercent\<close> of \<open>calculateNewPumpPerformance\<close>, after the
  branch on flow and \<open>Ns\<close> and the clamp to \<open>[0, 100]\<close>.
\<close>

definition newEfficiencyPercent :: "jsnum \<Rightarrow> jsnum \<Rightarrow> jsnum \<Rightarrow> jsnum" where
  "newEfficiencyPercent ns q originalEff =
     js_max (Fin 0) (js_min (Fin 100)
       (if js_gt q (Fin 20) \<and> js_lt q (Fin 61) \<and> js_lt ns (Fin 20)
        then js_sub (js_mul originalEff (Fin 100)) (Fin 9.89)
        else if js_lt ns (Fin 18) \<and> js_le q (Fin 20)
        then js_mul
          (js_sub (js_add (js_add (js_sub (js_add (js_sub (js_add
             (Fin (- 8.84553 / 10 ^ 3))
             (js_mul (Fin (7.9485 / 10 ^ 2)) ns))
             (js_mul (Fin (4.0913 / 10 ^ 3)) (js_pow ns 2)))
             (js_mul (Fin (1.08499 / 10 ^ 4)) (js_pow ns 3)))
             (js_mul (Fin (1.40755 / 10 ^ 6)) (js_pow ns 4)))
             (js_mul (Fin (5.4971 / 10 ^ 9)) (js_pow ns 5)))
             (js_mul (Fin (4.07879 / 10 ^ 11)) (js_pow ns 6)))
             (js_mul (Fin (2.66217 / 10 ^ 13)) (js_pow ns 7)))
          (Fin 100)
        else js_sub (js_mul originalEff (Fin 100)) (Fin 9.89)))"

definition calculateNewPumpPerformance ::
  "jsnum \<Rightarrow> jsnum \<Rightarrow> jsnum \<Rightarrow> jsnum \<Rightarrow> jsnum \<Rightarrow> jsnum \<Rightarrow> jsnum \<Rightarrow> jsnum \<Rightarrow> NewPump" where
  "calculateNewPumpPerformance ns q tdhm impDia npsha n sg originalEff =
     (let newEff = newEfficiencyPercent ns q originalEff;
          newHydPower = js_div (js_mul (js_mul q tdhm) sg)
                               (js_mul (Fin 367.63) (js_div newEff (Fin 100)))
      in \<lparr>np_flow = toFixed 2 q, np_head = toFixed 2 tdhm, np_ns = toFixed 2 ns,
          np_impdia = toFixed 2 impDia, np_npsh = toFixed 2 npsha, np_speed = toFixed 0 n,
          np_efficiency = toFixed 2 newEff, np_hydpower = toFixed 2 newHydPower\<rparr>)"

text \<open>The condition under which the handler calls \<open>calculateNewPumpPerformance\<close>.\<close>

definition newPumpTrigger :: "jsnum \<Rightarrow> jsnum \<Rightarrow> bool" where
  "newPumpTrigger q ns =
     ((js_gt q (Fin 20) \<and> js_lt q (Fin 61) \<and> js_lt ns (Fin 20))
      \<or> (js_lt ns (Fin 18) \<and> js_le q (Fin 20)))"

section \<open>The handler\<close>

record Result =
  efficiency :: jsnum
  uns :: jsnum
  ns :: jsnum
  unss :: jsnum
  nss :: jsnum
  phi :: jsnum
  angvel :: jsnum
  tipspeed :: jsnum
  impdia :: jsnum
  headstage :: jsnum
  hydpower :: jsnum
  reynolds :: jsnum
  cq :: jsnum
  ch :: jsnum
  ce :: jsnum
  nstatus :: string
  statusText :: string
  warnings :: "warning list"
  performanceData :: PerformanceData
  newPumpPerformance :: "NewPump option"

text \<open>
  The formulas on a validated input. The only step that can throw is the table lookup
  of \<open>generatePerformanceData\<close>; the \<open>catch\<close> block turns that into status 500.
\<close>

definition sizePump :: "PumpInput \<Rightarrow> error + Result" where
  "sizePump i =
     (let vc = calculateViscousCorrection (Re_number i);
          ws = generateWarnings (Ns i) (U2 i) (Fin (inNPSHA i)) (Nss i)
      in case generatePerformanceData (Fin (inQ i)) (Fin (inTDHm i)) (Eff i)
                (Fin (inNPSHA i)) (Nstatus i) (Fin (inSG i)) of
           None \<Rightarrow> Inl ServerError
         | Some pd \<Rightarrow>
             Inr \<lparr>efficiency = toFixed 2 (js_mul (Eff i) (Fin 100)),
                  uns = toFixed 4 (Uns i),
                  ns = toFixed 2 (Ns i),
                  unss = toFixed 4 (UNss i),
                  nss = toFixed 2 (Nss i),
                  phi = toFixed 4 (Phi i),
                  angvel = toFixed 2 (AngVel i),
                  tipspeed = toFixed 2 (U2 i),
                  impdia = toFixed 2 (ImpDia i),
                  headstage = toFixed 1 (HeadStage i),
                  hydpower = toFixed 2 (kW i),
                  reynolds = toFixed 2 (Re_number i),
                  cq = toFixed 2 (CQ vc),
                  ch = toFixed 2 (CH vc),
                  ce = toFixed 2 (CE vc),
                  nstatus = Nstatus i,
                  statusText = snd (Ns_status (Ns i)),
                  warnings = ws,
                  performanceData = pd,
                  newPumpPerformance =
                    (if newPumpTrigger (Fin (inQ i)) (Ns i)
                     then Some (calculateNewPumpPerformance (Ns i) (Fin (inQ i))
                                  (Fin (inTDHm i)) (ImpDia i) (Fin (inNPSHA i))
                                  (Fin (inN i)) (Fin (inSG i)) (Eff i))
                     else None)\<rparr>)"

text \<open>
  The body of the \<open>try\<close> block for a \<open>POST\<close> request whose body parsed to an object:
  validation first, then the formulas. \<open>Inr\<close> is the status 200 answer, as the object
  \<open>result\<close> before \<open>JSON.stringify\<close> (which prints a number that is not finite as
  \<open>null\<close>). Once the loop has passed, the eight values are finite numbers and
  \<open>destructure\<close> yields them; its \<open>None\<close> branch is there for totality only.
\<close>

definition handler :: "payload \<Rightarrow> error + Result" where
  "handler p =
     (case validate (numbers p) of
        Some e \<Rightarrow> Inl e
      | None \<Rightarrow> (case destructure p of None \<Rightarrow> Inl ServerError | Some i \<Rightarrow> sizePump i))"

section \<open>Example inputs\<close>

text \<open>The end-to-end example of the specification, as a payload.\<close>

definition example_payload :: payload where
  "example_payload =
     [''n'' \<mapsto> JNumber (Fin 3000), ''q'' \<mapsto> JNumber (Fin 500),
      ''tdhm'' \<mapsto> JNumber (Fin 120), ''npsha'' \<mapsto> JNumber (Fin 6),
      ''suctype'' \<mapsto> JNumber (Fin 1), ''sg'' \<mapsto> JNumber (Fin 1),
      ''num_impellers'' \<mapsto> JNumber (Fin 1), ''viscosity'' \<mapsto> JNumber (Fin 1)]"

text \<open>The payload that carries a given input.\<close>

definition payload_of :: "PumpInput \<Rightarrow> payload" where
  "payload_of i =
     [''n'' \<mapsto> JNumber (Fin (inN i)), ''q'' \<mapsto> JNumber (Fin (inQ i)),
      ''tdhm'' \<mapsto> JNumber (Fin (inTDHm i)), ''npsha'' \<mapsto> JNumber (Fin (inNPSHA i)),
      ''suctype'' \<mapsto> JNumber (Fin (inSucType i)), ''sg'' \<mapsto> JNumber (Fin (inSG i)),
      ''num_impellers'' \<mapsto> JNumber (Fin (inNumImpellers i)),
      ''viscosity'' \<mapsto> JNumber (Fin (inViscosity i))]"

text \<open>
  A single-stage pump with flow 3600 and head 1: both roots in the formula of \<open>Ns\<close> are
  1, so its specific speed is its rotational speed.
\<close>

definition threshold_input :: "real \<Rightarrow> PumpInput" where
  "threshold_input t =
     \<lparr>inN = t, inQ = 3600, inTDHm = 1, inNPSHA = 1, inSucType = 1, inSG = 1,
      inNumImpellers = 1, inViscosity = 1\<rparr>"

text \<open>
  A pump at 3000 rpm, flow 36 and total head 10000, with \<open>k\<close> stages. With one stage
  \<open>Ns = 3000 * 0.1 / 1000 = 0.3\<close>, with sixteen stages \<open>Ns = 3000 * 0.1 / 125 = 2.4\<close>.
\<close>

definition stage_input :: "real \<Rightarrow> PumpInput" where
  "stage_input k =
     \<lparr>inN = 3000, inQ = 36, inTDHm = 10000, inNPSHA = 6, inSucType = 1, inSG = 1,
      inNumImpellers = k, inViscosity = 1\<rparr>"

text \<open>A pump at 1 rpm, flow 9 and head 16: \<open>Ns = 0.05 / 8 = 1 / 160\<close>.\<close>

definition small_flow_input :: PumpInput where
  "small_flow_input =
     \<lparr>inN = 1, inQ = 9, inTDHm = 16, inNPSHA = 6, inSucType = 1, inSG = 1,
      inNumImpellers = 1, inViscosity = 1\<rparr>"

text \<open>The performance curve the handler returns for \<open>stage_input 1\<close>.\<close>

definition stage_1_curve :: PerformanceData where
  "stage_1_curve = performanceData (projr (sizePump (stage_input 1)))"

section \<open>Arithmetic of the model on finite values\<close>

lemma js_pow_pos: "0 < a \<Longrightarrow> y \<noteq> 0 \<Longrightarrow> js_pow (Fin a) y = Fin (a powr y)"
  by (simp add: js_pow_def)

lemma js_pow_numeral: "js_pow (Fin a) (numeral n) = Fin (a ^ numeral n)"
proof -
  have fl: "\<lfloor>numeral n :: real\<rfloor> = numeral n" by simp
  have "a < 0 \<Longrightarrow> a powi (numeral n :: int) = a ^ numeral n"
    by (simp add: power_int_def)
  then show ?thesis
    by (auto simp: js_pow_def fl)
qed

lemma js_or_cases: "js_or x y = (if x = Fin 0 \<or> x = NaN then y else x)"
  by (simp add: js_or_def)

lemma inf_sgn_not_finite: "\<not> isFinite (inf_sgn a)"
  by (simp add: inf_sgn_def)

lemma zero_divisor_not_finite: "\<not> isFinite (js_div x (js_mul (Fin 367.63) (Fin 0)))"
  by (cases x) (simp_all add: inf_sgn_not_finite)

lemma js_div_finite: "isFinite x \<Longrightarrow> x \<noteq> Fin 0 \<Longrightarrow> isFinite (js_div (Fin a) x)"
  by (cases x) auto

lemma isFinite_mul_09: "isFinite x \<Longrightarrow> isFinite (js_mul (Fin 0.9) x)"
  by (cases x) auto

lemma toFixed_simps: "toFixed d (Fin 0) = Fin 0" "toFixed d PInf = PInf"
  by (simp_all add: toFixed_def)

lemma clamp_cases:
  "js_max (Fin 0) (js_min (Fin 100) x) = NaN
   \<or> (\<exists>c. 0 \<le> c \<and> c \<le> 100 \<and> js_max (Fin 0) (js_min (Fin 100) x) = Fin c)"
  by (cases x) (auto simp: js_max_def js_min_def)

text \<open>Roots of the squares and fourth powers that the example inputs use.\<close>

lemma powr_half_sq: "0 \<le> a \<Longrightarrow> (a * a) powr 0.5 = (a::real)"
  using powr_half_sqrt [of "a * a"] by (simp add: real_sqrt_mult)

lemma powr_fourth:
  assumes "0 < (a::real)" shows "(a ^ 4) powr 0.75 = a ^ 3"
proof -
  have "(a powr 4) powr 0.75 = a powr (4 * 0.75)" by (rule powr_powr)
  also have "\<dots> = a powr 3" by simp
  finally show ?thesis using assms by simp
qed

lemma hundredth_powr_half: "(36 / 3600) powr 0.5 = (1 / 10 :: real)"
  using powr_half_sq [of "1 / 10"] by simp

lemma four_hundredth_powr_half: "(9 / 3600) powr 0.5 = (1 / 20 :: real)"
  using powr_half_sq [of "1 / 20"] by simp

lemma ten_thousand_powr: "10000 powr 0.75 = (1000 :: real)"
  using powr_fourth [of 10] by simp

lemma six25_powr: "(10000 / 16) powr 0.75 = (125 :: real)"
  using powr_fourth [of 5] by simp

lemma sixteen_powr: "16 powr 0.75 = (8 :: real)"
  using powr_fourth [of 2] by simp

lemma sixteenth_powr_quarter: "(1 / 16) powr 0.25 = (1 / 2 :: real)"
proof -
  have "((1 / 2 :: real) powr 4) powr 0.25 = (1 / 2) powr (4 * 0.25)" by (rule powr_powr)
  then have "((1 / 2 :: real) powr 4) powr 0.25 = 1 / 2" by simp
  moreover have "(1 / 2 :: real) powr 4 = 1 / 16" by (simp add: power_divide)
  ultimately show ?thesis by simp
qed

lemma log10_ge_2: "100 \<le> x \<Longrightarrow> 2 \<le> log 10 (x::real)"
proof -
  assume x: "100 \<le> x"
  have "log 10 100 \<le> log 10 x" using x by simp
  moreover have "log 10 (100::real) = 2"
    using log_pow_cancel [of 10 2] by simp
  ultimately show ?thesis by simp
qed

lemma log10_le_3_2:
  assumes "0 < x" "x ^ 2 \<le> 1000" shows "log 10 (x::real) \<le> 3 / 2"
proof -
  have "log 10 (x ^ 2) \<le> log 10 1000" using assms by simp
  moreover have "log 10 (x ^ 2) = 2 * log 10 x" using assms(1) by (simp add: log_nat_power)
  moreover have "log 10 (1000::real) = 3" using log_pow_cancel [of 10 3] by simp
  ultimately show ?thesis by simp
qed

section \<open>The handler answers every validated input\<close>

lemma Ns_status_keys:
  "fst (Ns_status v) \<in> {''Ns1'', ''Ns2'', ''Ns3'', ''Ns4'', ''Ns5'', ''Ns6'', ''Ns7''}"
  by (simp add: Ns_status_def)

lemma head_lookup:
  "k \<in> {''Ns1'', ''Ns2'', ''Ns3'', ''Ns4'', ''Ns5'', ''Ns6'', ''Ns7''} \<Longrightarrow>
   map_of head_coefficients k \<noteq> None"
  by (auto simp: head_coefficients_def)

lemma efficiency_lookup:
  "k \<in> {''Ns1'', ''Ns2'', ''Ns3'', ''Ns4'', ''Ns5'', ''Ns6'', ''Ns7''} \<Longrightarrow>
   map_of efficiency_coefficients k \<noteq> None"
  by (auto simp: efficiency_coefficients_def)

lemma npsh_lookup:
  "k \<in> {''Ns1'', ''Ns2'', ''Ns3'', ''Ns4'', ''Ns5'', ''Ns6'', ''Ns7''} \<Longrightarrow>
   map_of npsh_coefficients k \<noteq> None"
  by (auto simp: npsh_coefficients_def)

lemma generatePerformanceData_defined:
  "generatePerformanceData q t e n (fst (Ns_status v)) s \<noteq> None"
proof -
  let ?k = "fst (Ns_status v)"
  obtain hc where h: "map_of head_coefficients ?k = Some hc"
    using head_lookup [OF Ns_status_keys] by blast
  obtain ec where e: "map_of efficiency_coefficients ?k = Some ec"
    using efficiency_lookup [OF Ns_status_keys] by blast
  obtain nc where n: "map_of npsh_coefficients ?k = Some nc"
    using npsh_lookup [OF Ns_status_keys] by blast
  show ?thesis
    unfolding generatePerformanceData_def h e n by (simp add: Let_def)
qed

lemma sizePump_total: "\<exists>r. sizePump i = Inr r"
proof -
  obtain pd where "generatePerformanceData (Fin (inQ i)) (Fin (inTDHm i)) (Eff i)
      (Fin (inNPSHA i)) (Nstatus i) (Fin (inSG i)) = Some pd"
    using generatePerformanceData_defined unfolding Nstatus_def by blast
  then show ?thesis by (simp add: sizePump_def Let_def)
qed

lemma sizePump_newPumpPerformance:
  "sizePump i = Inr r \<Longrightarrow>
   newPumpPerformance r =
     (if newPumpTrigger (Fin (inQ i)) (Ns i)
      then Some (calculateNewPumpPerformance (Ns i) (Fin (inQ i)) (Fin (inTDHm i))
                   (ImpDia i) (Fin (inNPSHA i)) (Fin (inN i)) (Fin (inSG i)) (Eff i))
      else None)"
  by (auto simp: sizePump_def Let_def split: option.splits)

lemma sizePump_performanceData:
  "sizePump i = Inr r \<Longrightarrow>
   generatePerformanceData (Fin (inQ i)) (Fin (inTDHm i)) (Eff i) (Fin (inNPSHA i))
     (Nstatus i) (Fin (inSG i)) = Some (performanceData r)"
  by (auto simp: sizePump_def Let_def split: option.splits)

text \<open>
  The loop rejects at the first entry that is not a finite number, and only there.
\<close>

lemma validate_find:
  "validate xs = (case find (\<lambda>kv. finite_number (snd kv) = None) xs of
      None \<Rightarrow> None | Some kv \<Rightarrow> Some (ValidationError (invalid_message (fst kv))))"
proof (induction xs)
  case Nil
  show ?case by simp
next
  case (Cons x xs)
  obtain k v where x: "x = (k, v)" by (cases x)
  have bad: "(\<not> typeof_number v \<or> Number_isNaN v \<or> \<not> Number_isFinite v)
      = (finite_number v = None)"
    by (auto simp: typeof_number_def Number_isNaN_def Number_isFinite_def finite_number_def
        split: option.splits jsval.splits jsnum.splits)
  have step: "validate ((k, v) # xs) =
      (if finite_number v = None then Some (ValidationError (invalid_message k))
       else validate xs)"
    by (simp only: validate.simps bad)
  show ?case
    unfolding x step using Cons.IH by (cases "finite_number v") simp_all
qed

lemma destructure_defined:
  assumes "find (\<lambda>kv. finite_number (snd kv) = None) (numbers p) = None"
  shows "destructure p \<noteq> None"
proof -
  from assms have "\<forall>kv \<in> set (numbers p). finite_number (snd kv) \<noteq> None"
    by (auto simp: find_None_iff)
  then show ?thesis
    by (auto simp: numbers_def destructure_def)
qed

lemma handler_accepts:
  assumes "find (\<lambda>kv. finite_number (snd kv) = None) (numbers p) = None"
  shows "\<exists>r. handler p = Inr r"
proof -
  obtain i where "destructure p = Some i"
    using destructure_defined [OF assms] by blast
  moreover obtain r where "sizePump i = Inr r" using sizePump_total by blast
  ultimately show ?thesis
    using assms by (simp add: handler_def validate_find)
qed

lemma handler_Inr:
  "handler p = Inr r \<Longrightarrow> \<exists>i. destructure p = Some i \<and> sizePump i = Inr r"
  by (auto simp: handler_def split: option.splits)

lemma handler_payload_of: "handler (payload_of (i :: PumpInput)) = sizePump i"
proof -
  have v: "validate (numbers (payload_of i)) = None"
    by (simp add: numbers_def payload_of_def typeof_number_def Number_isNaN_def
        Number_isFinite_def)
  have d: "destructure (payload_of i) = Some i"
    by (simp add: destructure_def payload_of_def finite_number_def)
  show ?thesis by (simp add: handler_def v d)
qed

section \<open>Validation\<close>

lemma suctype_3_passes:
  "find (\<lambda>kv. finite_number (snd kv) = None)
     (numbers (example_payload(''suctype'' \<mapsto> JNumber (Fin 3)))) = None"
  by (simp add: numbers_def example_payload_def finite_number_def)

text \<open>
  C1, as amended. The handler answers status 400 exactly when one of the eight fields
  \<open>n\<close>, \<open>q\<close>, \<open>tdhm\<close>, \<open>npsha\<close>, \<open>suctype\<close>, \<open>sg\<close>, \<open>num_impellers\<close>, \<open>viscosity\<close> is
  missing, not a number, NaN or infinite; the message names the first such field, in
  that order, and nothing is computed. A payload whose eight fields are finite numbers
  is answered with a result, whatever the value of \<open>suctype\<close>: the value is not compared
  with 1 and 2.
\<close>

theorem handler_validation:
  "(\<forall>k v. find (\<lambda>kv. finite_number (snd kv) = None) (numbers p) = Some (k, v)
      \<longrightarrow> handler p = Inl (ValidationError (invalid_message k)))
   \<and> (find (\<lambda>kv. finite_number (snd kv) = None) (numbers p) = None
      \<longrightarrow> (\<exists>r. handler p = Inr r))"
proof (intro conjI allI impI)
  fix k v
  assume "find (\<lambda>kv. finite_number (snd kv) = None) (numbers p) = Some (k, v)"
  then show "handler p = Inl (ValidationError (invalid_message k))"
    by (simp add: handler_def validate_find)
next
  assume "find (\<lambda>kv. finite_number (snd kv) = None) (numbers p) = None"
  then show "\<exists>r. handler p = Inr r" by (rule handler_accepts)
qed

text \<open>
  The theorem at two payloads: the example with \<open>sg\<close> sent as a string, which is
  rejected under the name \<open>SG\<close>, and the example with \<open>suctype\<close> set to 3, which is
  answered.
\<close>

theorem handler_validation_witness:
  "find (\<lambda>kv. finite_number (snd kv) = None)
     (numbers (example_payload(''sg'' \<mapsto> JString ''1.0'')))
     = Some (''SG'', Some (JString ''1.0''))
   \<and> handler (example_payload(''sg'' \<mapsto> JString ''1.0''))
     = Inl (ValidationError (invalid_message ''SG''))
   \<and> find (\<lambda>kv. finite_number (snd kv) = None)
     (numbers (example_payload(''suctype'' \<mapsto> JNumber (Fin 3)))) = None
   \<and> (\<exists>r. handler (example_payload(''suctype'' \<mapsto> JNumber (Fin 3))) = Inr r)"
proof -
  have bad: "find (\<lambda>kv. finite_number (snd kv) = None)
     (numbers (example_payload(''sg'' \<mapsto> JString ''1.0'')))
     = Some (''SG'', Some (JString ''1.0''))"
    by (simp add: numbers_def example_payload_def finite_number_def)
  show ?thesis
    using bad suctype_3_passes
      handler_validation [of "example_payload(''sg'' \<mapsto> JString ''1.0'')"]
      handler_validation [of "example_payload(''suctype'' \<mapsto> JNumber (Fin 3))"]
    by blast
qed

text \<open>
  C1 as stated fails: the payload of finite numbers with \<open>suctype = 3\<close> is not rejected.
\<close>

theorem suctype_3_not_rejected:
  "\<not> isl (handler (example_payload(''suctype'' \<mapsto> JNumber (Fin 3))))"
  using handler_accepts [OF suctype_3_passes] by auto

section \<open>Classification\<close>

lemma Ns_threshold_input: "Ns (threshold_input t) = Fin t"
  by (simp add: Ns_def HeadStage_def threshold_input_def js_pow_def)



text \<open>
  C4, as amended. A specific speed equal to a threshold gets the band whose range ends
  at that threshold: the comparisons are strict, so each band excludes its lower bound
  and includes its upper bound. \<open>Ns = 20\<close> is Very Low, 40 is Low, 60 is Medium-Low,
  80 is Medium, 100 is Medium-High and 175 is High.
\<close>

theorem threshold_band:
  "\<exists>r. sizePump i = Inr r \<and>
     (Ns i = Fin 20 \<longrightarrow> nstatus r = ''Ns1'' \<and> statusText r = ''Very Low Ns'') \<and>
     (Ns i = Fin 40 \<longrightarrow> nstatus r = ''Ns2'' \<and> statusText r = ''Low Ns'') \<and>
     (Ns i = Fin 60 \<longrightarrow> nstatus r = ''Ns3'' \<and> statusText r = ''Medium-Low Ns'') \<and>
     (Ns i = Fin 80 \<longrightarrow> nstatus r = ''Ns4'' \<and> statusText r = ''Medium Ns'') \<and>
     (Ns i = Fin 100 \<longrightarrow> nstatus r = ''Ns5'' \<and> statusText r = ''Medium-High Ns'') \<and>
     (Ns i = Fin 175 \<longrightarrow> nstatus r = ''Ns6'' \<and> statusText r = ''High Ns'')"
proof -
  obtain r where r: "sizePump i = Inr r" using sizePump_total by blast
  then have "nstatus r = fst (Ns_status (Ns i))" "statusText r = snd (Ns_status (Ns i))"
    by (auto simp: sizePump_def Let_def Nstatus_def split: option.splits)
  then show ?thesis using r by (simp add: Ns_status_def js_gt_def)
qed

theorem threshold_band_witness:
  "(\<exists>r. sizePump (threshold_input 20) = Inr r \<and> nstatus r = ''Ns1'')
   \<and> (\<exists>r. sizePump (threshold_input 40) = Inr r \<and> nstatus r = ''Ns2'')
   \<and> (\<exists>r. sizePump (threshold_input 60) = Inr r \<and> nstatus r = ''Ns3'')
   \<and> (\<exists>r. sizePump (threshold_input 80) = Inr r \<and> nstatus r = ''Ns4'')
   \<and> (\<exists>r. sizePump (threshold_input 100) = Inr r \<and> nstatus r = ''Ns5'')
   \<and> (\<exists>r. sizePump (threshold_input 175) = Inr r \<and> nstatus r = ''Ns6'')"
  using threshold_band [of "threshold_input 20"] threshold_band [of "threshold_input 40"]
    threshold_band [of "threshold_input 60"] threshold_band [of "threshold_input 80"]
    threshold_band [of "threshold_input 100"] threshold_band [of "threshold_input 175"]
  by (simp add: Ns_threshold_input) blast

text \<open>
  C4 as stated fails: the input with speed 100, flow 3600, head 1 and one stage has
  \<open>Ns = 100\<close> exactly and is classified Medium-High (\<open>Ns5\<close>), not High (\<open>Ns6\<close>).
\<close>

theorem threshold_100_not_High:
  "Ns (threshold_input 100) = Fin 100 \<and> Nstatus (threshold_input 100) \<noteq> ''Ns6''"
  by (simp add: Ns_threshold_input Nstatus_def Ns_status_def js_gt_def)

section \<open>Similarity parameters and efficiency on positive inputs\<close>

lemma Ns_pos:
  assumes "0 < inQ i" "0 < inTDHm i" "0 < inNumImpellers i"
  shows "Ns i = Fin (inN i * (inQ i / 3600) powr 0.5
                      / (inTDHm i / inNumImpellers i) powr 0.75)"
  using assms by (simp add: Ns_def HeadStage_def js_pow_pos)

lemma Ns_pos_gt:
  assumes "0 < inN i" "0 < inQ i" "0 < inTDHm i" "0 < inNumImpellers i"
  shows "\<exists>s. 0 < s \<and> Ns i = Fin s"
  using assms Ns_pos [of i] by simp

lemma Ns_stages:
  assumes "0 < inN i" "0 < inQ i" "0 < inTDHm i" "0 < k"
  shows "Ns (i\<lparr>inNumImpellers := k\<rparr>)
           = Fin (inN i * (inQ i / 3600) powr 0.5 / (inTDHm i / k) powr 0.75)"
    and "0 < inN i * (inQ i / 3600) powr 0.5 / (inTDHm i / k) powr 0.75"
  using assms Ns_pos [of "i\<lparr>inNumImpellers := k\<rparr>"] by simp_all

lemma Uns_threshold_input: "Uns (threshold_input t) = Fin (t / 52.919)"
  by (simp add: Uns_def  Ns_def HeadStage_def threshold_input_def js_pow_def)

lemma Nus_threshold_input:
  "Nus ((threshold_input t)\<lparr>inNumImpellers := 1\<rparr>) = Fin (t * 51.66)"
  by (simp add: Nus_def Ns_def HeadStage_def threshold_input_def js_pow_def)

lemma threshold_input_positive:
  "0 < t \<Longrightarrow> 0 < inN (threshold_input t) \<and> 0 < inQ (threshold_input t)
     \<and> 0 < inTDHm (threshold_input t) \<and> 0 < inNumImpellers (threshold_input t)"
  by (simp add: threshold_input_def)

lemma Ns_stage_input_1: "Ns (stage_input 1) = Fin (3 / 10)"
proof -
  have "Ns (stage_input 1) = Fin (3000 * (36 / 3600) powr 0.5 / (10000 / 1) powr 0.75)"
    using Ns_pos [of "stage_input 1"] by (simp add: stage_input_def)
  also have "3000 * (36 / 3600) powr 0.5 / (10000 / 1) powr 0.75 = (3 / 10 :: real)"
    unfolding hundredth_powr_half using ten_thousand_powr by simp
  finally show ?thesis .
qed

lemma Ns_stage_input_16: "Ns (stage_input 16) = Fin (12 / 5)"
proof -
  have "Ns (stage_input 16) = Fin (3000 * (36 / 3600) powr 0.5 / (10000 / 16) powr 0.75)"
    using Ns_pos [of "stage_input 16"] by (simp add: stage_input_def)
  also have "3000 * (36 / 3600) powr 0.5 / (10000 / 16) powr 0.75 = (12 / 5 :: real)"
    unfolding hundredth_powr_half six25_powr by simp
  finally show ?thesis .
qed

lemma Ns_small_flow_input: "Ns small_flow_input = Fin (1 / 160)"
proof -
  have "Ns small_flow_input = Fin (1 * (9 / 3600) powr 0.5 / (16 / 1) powr 0.75)"
    using Ns_pos [of small_flow_input] by (simp add: small_flow_input_def)
  also have "1 * (9 / 3600) powr 0.5 / (16 / 1) powr 0.75 = (1 / 160 :: real)"
    unfolding four_hundredth_powr_half using sixteen_powr by simp
  finally show ?thesis .
qed

lemma Nstatus_stage_input_1: "Nstatus (stage_input 1) = ''Ns1''"
  by (simp add: Nstatus_def Ns_stage_input_1 Ns_status_def js_gt_def)

lemma Eff_finite:
  assumes "0 < inN i" "0 < inQ i" "Ns i = Fin s" "0 < s"
  shows "Eff i = Fin (0.94 - 0.08955 * (inQ i * 4.402867 / inN i) powr (- 0.2133)
                      - 0.29 * (log 10 (2286 / (s * 51.66))) ^ 2
                      - 0.005 * (inNumImpellers i - 1))"
proof -
  have q: "js_div (Qus i) (Fin (inN i)) = Fin (inQ i * 4.402867 / inN i)"
    using assms(1) by (simp add: Qus_def)
  have qpos: "0 < inQ i * 4.402867 / inN i" using assms(1,2) by simp
  have n: "js_div (Fin 2286) (Nus i) = Fin (2286 / (s * 51.66))"
    using assms(4) by (simp add: Nus_def assms(3))
  have npos: "0 < 2286 / (s * 51.66)" using assms(4) by simp
  have l: "js_log10 (js_div (Fin 2286) (Nus i)) = Fin (log 10 (2286 / (s * 51.66)))"
    unfolding n using npos by simp
  have p: "js_pow (js_div (Qus i) (Fin (inN i))) (- 0.2133)
      = Fin ((inQ i * 4.402867 / inN i) powr (- 0.2133))"
    unfolding q using qpos by (simp add: js_pow_pos)
  show ?thesis
    unfolding Eff_def Eff_initial_def l p js_pow_numeral
    by (simp add: js_sub_def)
qed

lemma Eff_stage_input_1: "\<exists>e. e < 0 \<and> Eff (stage_input 1) = Fin e"
proof -
  let ?A = "(inQ (stage_input 1) * 4.402867 / inN (stage_input 1)) powr (- 0.2133)"
  let ?L = "log 10 (2286 / (3 / 10 * 51.66))"
  have e: "Eff (stage_input 1) = Fin (0.94 - 0.08955 * ?A - 0.29 * ?L ^ 2
                      - 0.005 * (inNumImpellers (stage_input 1) - 1))"
    by (rule Eff_finite [OF _ _ Ns_stage_input_1]) (simp_all add: stage_input_def)
  have "2 \<le> ?L" by (rule log10_ge_2) simp
  then have "2 ^ 2 \<le> ?L ^ 2" by (rule power_mono) simp
  then have L: "4 \<le> ?L ^ 2" by simp
  have A: "0 \<le> ?A" by simp
  have k: "inNumImpellers (stage_input 1) = 1" by (simp add: stage_input_def)
  have gen: "0 \<le> a \<Longrightarrow> 4 \<le> l \<Longrightarrow> 0.94 - 0.08955 * a - 0.29 * l - 0.005 * (1 - 1) < 0"
    for a l :: real by simp
  have "0.94 - 0.08955 * ?A - 0.29 * ?L ^ 2 - 0.005 * (inNumImpellers (stage_input 1) - 1) < 0"
    unfolding k by (rule gen [OF A L])
  with e show ?thesis by blast
qed

section \<open>Flow coefficient\<close>

text \<open>
  C5. On an input with positive speed, flow, head and stage count, \<open>Uns\<close> is a positive
  finite number \<open>u\<close>, and the flow coefficient is \<open>0.4 / sqrt u\<close> when \<open>1 < u\<close> and
  \<open>0.4 / u^0.25\<close> when \<open>u \<le> 1\<close>, the boundary \<open>u = 1\<close> included in the second form.
\<close>

theorem Phi_branch:
  assumes "0 < inN i" "0 < inQ i" "0 < inTDHm i" "0 < inNumImpellers i"
  shows "\<exists>u. 0 < u \<and> Uns i = Fin u
           \<and> Phi i = Fin (if 1 < u then 0.4 / sqrt u else 0.4 / u powr 0.25)"
proof -
  obtain s where s: "0 < s" "Ns i = Fin s" using Ns_pos_gt [OF assms] by blast
  let ?u = "s / 52.919"
  have u: "0 < ?u" "Uns i = Fin ?u" using s by (simp_all add: Uns_def)
  have "Phi i = Fin (if 1 < ?u then 0.4 / sqrt ?u else 0.4 / ?u powr 0.25)"
    using u(1) unfolding Phi_def u(2)
    by (simp add: js_gt_def js_pow_pos powr_half_sqrt)
  with u show ?thesis by blast
qed

text \<open>
  At \<open>Uns = 1\<close>, \<open>Uns = 4\<close> and \<open>Uns = 1/16\<close>: the last two values tell the branches
  apart (the other branch would give 0.283 and 1.6).
\<close>

theorem Phi_branch_witness:
  "Phi (threshold_input 52.919) = Fin 0.4
   \<and> Phi (threshold_input (4 * 52.919)) = Fin 0.2
   \<and> Phi (threshold_input (52.919 / 16)) = Fin 0.8"
proof (intro conjI)
  obtain u where u: "Uns (threshold_input 52.919) = Fin u"
      "Phi (threshold_input 52.919) = Fin (if 1 < u then 0.4 / sqrt u else 0.4 / u powr 0.25)"
    using Phi_branch [of "threshold_input 52.919"] threshold_input_positive [of "52.919"]
    by auto
  from u(1) have "u = 1" by (simp add: Uns_threshold_input)
  with u(2) show "Phi (threshold_input 52.919) = Fin 0.4" by simp
next
  obtain u where u: "Uns (threshold_input (4 * 52.919)) = Fin u"
      "Phi (threshold_input (4 * 52.919))
         = Fin (if 1 < u then 0.4 / sqrt u else 0.4 / u powr 0.25)"
    using Phi_branch [of "threshold_input (4 * 52.919)"]
      threshold_input_positive [of "4 * 52.919"]
    by auto
  from u(1) have "u = 4" by (simp add: Uns_threshold_input)
  with u(2) show "Phi (threshold_input (4 * 52.919)) = Fin 0.2" by simp
next
  obtain u where u: "Uns (threshold_input (52.919 / 16)) = Fin u"
      "Phi (threshold_input (52.919 / 16))
         = Fin (if 1 < u then 0.4 / sqrt u else 0.4 / u powr 0.25)"
    using Phi_branch [of "threshold_input (52.919 / 16)"]
      threshold_input_positive [of "52.919 / 16"]
    by auto
  from u(1) have "u = 1 / 16" by (simp add: Uns_threshold_input)
  have "0.4 / (1 / 16) powr 0.25 = (0.8 :: real)"
    unfolding sixteenth_powr_quarter by simp
  with u(2) \<open>u = 1 / 16\<close> show "Phi (threshold_input (52.919 / 16)) = Fin 0.8"
    by simp
qed

section \<open>Efficiency and the number of stages\<close>

text \<open>
  C2, as amended. With speed, flow and total head positive and fixed, the efficiency
  after the multistage penalty does not increase from \<open>k1\<close> to \<open>k2 > k1 \<ge> 1\<close> stages
  provided \<open>Nus\<close> at \<open>k1\<close> stages is at least 2286. There \<open>log10 (2286 / Nus)\<close> is
  not positive and moves away from zero as stages are added, so both the regression
  term and the penalty lower the efficiency.
\<close>

theorem efficiency_monotone_high_Nus:
  assumes "0 < inN i" "0 < inQ i" "0 < inTDHm i" "1 \<le> k1" "k1 < k2"
    and "Nus (i\<lparr>inNumImpellers := k1\<rparr>) = Fin n1" "2286 \<le> n1"
  shows "\<exists>e1 e2. Eff (i\<lparr>inNumImpellers := k1\<rparr>) = Fin e1
           \<and> Eff (i\<lparr>inNumImpellers := k2\<rparr>) = Fin e2 \<and> e2 \<le> e1"
proof -
  define c where "c = inN i * (inQ i / 3600) powr 0.5"
  define s1 where "s1 = c / (inTDHm i / k1) powr 0.75"
  define s2 where "s2 = c / (inTDHm i / k2) powr 0.75"
  define A where "A = (inQ i * 4.402867 / inN i) powr (- 0.2133)"
  have k: "0 < k1" "0 < k2" using assms(4,5) by simp_all
  have cpos: "0 < c" using assms(1,2) by (simp add: c_def)
  have s1: "Ns (i\<lparr>inNumImpellers := k1\<rparr>) = Fin s1" "0 < s1"
    using Ns_stages [OF assms(1,2,3) k(1)] by (simp_all add: s1_def c_def)
  have s2: "Ns (i\<lparr>inNumImpellers := k2\<rparr>) = Fin s2" "0 < s2"
    using Ns_stages [OF assms(1,2,3) k(2)] by (simp_all add: s2_def c_def)
  have "inTDHm i / k2 \<le> inTDHm i / k1"
    using assms(3,5) k by (simp add: frac_le)
  then have "(inTDHm i / k2) powr 0.75 \<le> (inTDHm i / k1) powr 0.75"
    using assms(3) k by (intro powr_mono2) simp_all
  moreover have "0 < (inTDHm i / k2) powr 0.75" "0 < (inTDHm i / k1) powr 0.75"
    using assms(3) k by simp_all
  ultimately have s12: "s1 \<le> s2"
    unfolding s1_def s2_def using cpos
    by (intro divide_left_mono mult_pos_pos) (simp_all del: powr_gt_zero)
  have n1: "n1 = s1 * 51.66" using assms(6) by (simp add: Nus_def s1(1))
  define x1 where "x1 = 2286 / (s1 * 51.66)"
  define x2 where "x2 = 2286 / (s2 * 51.66)"
  have x: "0 < x2" "x2 \<le> x1" "x1 \<le> 1"
    using s1(2) s2(2) s12 assms(7) n1 by (simp_all add: x1_def x2_def frac_le)
  have "log 10 x2 \<le> log 10 x1" using x by simp
  moreover have "log 10 x1 \<le> 0" using x by simp
  ultimately have "\<bar>log 10 x1\<bar> \<le> \<bar>log 10 x2\<bar>" by simp
  then have L: "(log 10 x1) ^ 2 \<le> (log 10 x2) ^ 2" by (simp add: abs_le_square_iff)
  have e1: "Eff (i\<lparr>inNumImpellers := k1\<rparr>)
      = Fin (0.94 - 0.08955 * A - 0.29 * (log 10 x1) ^ 2 - 0.005 * (k1 - 1))"
    using Eff_finite [of "i\<lparr>inNumImpellers := k1\<rparr>" s1] assms(1,2) s1
    by (simp add: A_def x1_def)
  have e2: "Eff (i\<lparr>inNumImpellers := k2\<rparr>)
      = Fin (0.94 - 0.08955 * A - 0.29 * (log 10 x2) ^ 2 - 0.005 * (k2 - 1))"
    using Eff_finite [of "i\<lparr>inNumImpellers := k2\<rparr>" s2] assms(1,2) s2
    by (simp add: A_def x2_def)
  have gen: "a \<le> b \<Longrightarrow> k1 < k2 \<Longrightarrow>
      0.94 - 0.08955 * A - 0.29 * b - 0.005 * (k2 - 1)
        \<le> 0.94 - 0.08955 * A - 0.29 * a - 0.005 * (k1 - 1)" for a b :: real
    by (simp add: diff_divide_distrib)
  have "0.94 - 0.08955 * A - 0.29 * (log 10 x2) ^ 2 - 0.005 * (k2 - 1)
      \<le> 0.94 - 0.08955 * A - 0.29 * (log 10 x1) ^ 2 - 0.005 * (k1 - 1)"
    by (rule gen [OF L assms(5)])
  with e1 e2 show ?thesis by blast
qed

theorem efficiency_monotone_high_Nus_witness:
  "Nus ((threshold_input 100)\<lparr>inNumImpellers := 1\<rparr>) = Fin 5166 \<and> (2286::real) \<le> 5166
   \<and> (\<exists>e1 e2. Eff ((threshold_input 100)\<lparr>inNumImpellers := 1\<rparr>) = Fin e1
           \<and> Eff ((threshold_input 100)\<lparr>inNumImpellers := 2\<rparr>) = Fin e2 \<and> e2 \<le> e1)"
proof -
  have n: "Nus ((threshold_input 100)\<lparr>inNumImpellers := 1\<rparr>) = Fin 5166"
    by (simp add: Nus_threshold_input)
  have p: "0 < inN (threshold_input 100)" "0 < inQ (threshold_input 100)"
    "0 < inTDHm (threshold_input 100)"
    by (simp_all add: threshold_input_def)
  show ?thesis
    using efficiency_monotone_high_Nus [OF p _ _ n, of 2] n by simp
qed

text \<open>
  C2 as stated fails below \<open>Nus = 2286\<close>: at 3000 rpm, flow 36 and total head 10000 the
  efficiency with sixteen stages is strictly greater than with one stage. The
  regression term rises by more than \<open>0.29 * (4 - 2.25)\<close>, the penalty is \<open>0.075\<close>.
\<close>

theorem efficiency_rises_with_stages:
  "js_lt (Eff (stage_input 1)) (Eff (stage_input 16))
   \<and> isFinite (Eff (stage_input 1)) \<and> isFinite (Eff (stage_input 16))"
proof -
  define A :: real where "A = (36 * 4.402867 / 3000) powr (- 0.2133)"
  define L1 :: real where "L1 = log 10 (2286 / (3 / 10 * 51.66))"
  define L2 :: real where "L2 = log 10 (2286 / (12 / 5 * 51.66))"
  have e1: "Eff (stage_input 1) = Fin (0.94 - 0.08955 * A - 0.29 * L1 ^ 2 - 0.005 * (1 - 1))"
    using Eff_finite [OF _ _ Ns_stage_input_1]
    by (simp add: stage_input_def A_def L1_def)
  have e2: "Eff (stage_input 16) = Fin (0.94 - 0.08955 * A - 0.29 * L2 ^ 2 - 0.005 * (16 - 1))"
    using Eff_finite [OF _ _ Ns_stage_input_16]
    by (simp add: stage_input_def A_def L2_def)
  have "2 \<le> L1" unfolding L1_def by (rule log10_ge_2) simp
  then have "2 ^ 2 \<le> L1 ^ 2" by (rule power_mono) simp
  then have l1: "4 \<le> L1 ^ 2" by simp
  have "L2 \<le> 3 / 2" unfolding L2_def by (rule log10_le_3_2) (simp_all add: power2_eq_square)
  moreover have "0 \<le> L2" unfolding L2_def by simp
  ultimately have "L2 ^ 2 \<le> (3 / 2) ^ 2" by (intro power_mono)
  then have l2: "L2 ^ 2 \<le> 9 / 4" by (simp add: power2_eq_square)
  have gen: "4 \<le> a \<Longrightarrow> b \<le> 9 / 4 \<Longrightarrow>
      0.94 - 0.08955 * c - 0.29 * a - 0.005 * (1 - 1)
        < 0.94 - 0.08955 * c - 0.29 * b - 0.005 * (16 - 1)" for a b c :: real
    by simp
  show ?thesis unfolding e1 e2 using gen [OF l1 l2] by simp
qed

section \<open>The alternate pump estimate is present exactly on its trigger\<close>

text \<open>
  C3. The handler always answers a validated input, and the alternate estimate is
  present in the answer exactly when \<open>(20 < flow < 61 and Ns < 20)\<close> or
  \<open>(Ns < 18 and flow \<le> 20)\<close>, for a finite specific speed \<open>Ns\<close>. A specific speed that
  is NaN or \<open>+\<infinity>\<close> never triggers; \<open>-\<infinity>\<close> triggers when \<open>flow < 61\<close>. Flow 30 with
  \<open>Ns = 15\<close> and flow 10 with \<open>Ns = 10\<close> trigger, flow 100 with \<open>Ns = 50\<close> does not.
\<close>

theorem alternate_pump_presence:
  "(\<exists>r. sizePump i = Inr r \<and>
      (newPumpPerformance r \<noteq> None) =
        (case Ns i of
           Fin s \<Rightarrow> (20 < inQ i \<and> inQ i < 61 \<and> s < 20) \<or> (s < 18 \<and> inQ i \<le> 20)
         | NInf \<Rightarrow> inQ i < 61
         | _ \<Rightarrow> False))
   \<and> newPumpTrigger (Fin 30) (Fin 15) \<and> newPumpTrigger (Fin 10) (Fin 10)
   \<and> \<not> newPumpTrigger (Fin 100) (Fin 50)"
proof -
  obtain r where r: "sizePump i = Inr r" using sizePump_total by blast
  have "(newPumpPerformance r \<noteq> None) = newPumpTrigger (Fin (inQ i)) (Ns i)"
    by (simp add: sizePump_newPumpPerformance [OF r])
  also have "\<dots> = (case Ns i of
           Fin s \<Rightarrow> (20 < inQ i \<and> inQ i < 61 \<and> s < 20) \<or> (s < 18 \<and> inQ i \<le> 20)
         | NInf \<Rightarrow> inQ i < 61
         | _ \<Rightarrow> False)"
    by (cases "Ns i") (auto simp: newPumpTrigger_def js_gt_def)
  finally show ?thesis using r by (simp add: newPumpTrigger_def js_gt_def)
qed

theorem alternate_pump_presence_witness:
  "(\<exists>r. sizePump (stage_input 1) = Inr r \<and> newPumpPerformance r \<noteq> None)
   \<and> (\<exists>r. sizePump (threshold_input 50) = Inr r \<and> newPumpPerformance r = None)"
  using alternate_pump_presence [of "stage_input 1"]
    alternate_pump_presence [of "threshold_input 50"]
  by (simp add: Ns_stage_input_1 Ns_threshold_input) (simp add: stage_input_def threshold_input_def)

section \<open>Viscosity\<close>

lemma viscosity_unused:
  "HeadStage (i\<lparr>inViscosity := v\<rparr>) = HeadStage i"
  "AngVel (i\<lparr>inViscosity := v\<rparr>) = AngVel i"
  "Ns (i\<lparr>inViscosity := v\<rparr>) = Ns i"
  "Nss (i\<lparr>inViscosity := v\<rparr>) = Nss i"
  by (simp_all add: HeadStage_def AngVel_def Ns_def Nss_def)

lemma viscosity_unused2:
  "Uns (i\<lparr>inViscosity := v\<rparr>) = Uns i"
  "UNss (i\<lparr>inViscosity := v\<rparr>) = UNss i"
  "Nus (i\<lparr>inViscosity := v\<rparr>) = Nus i"
  "Qus (i\<lparr>inViscosity := v\<rparr>) = Qus i"
  "Nstatus (i\<lparr>inViscosity := v\<rparr>) = Nstatus i"
  by (simp_all add: Uns_def UNss_def Nus_def Qus_def Nstatus_def viscosity_unused)

lemma viscosity_unused3:
  "Phi (i\<lparr>inViscosity := v\<rparr>) = Phi i"
  "Eff (i\<lparr>inViscosity := v\<rparr>) = Eff i"
  by (simp_all add: Phi_def Eff_def Eff_initial_def viscosity_unused viscosity_unused2)

lemma viscosity_unused4:
  "r2 (i\<lparr>inViscosity := v\<rparr>) = r2 i"
  "ImpDia (i\<lparr>inViscosity := v\<rparr>) = ImpDia i"
  "U2 (i\<lparr>inViscosity := v\<rparr>) = U2 i"
  "kW (i\<lparr>inViscosity := v\<rparr>) = kW i"
  by (simp_all add: r2_def ImpDia_def U2_def kW_def viscosity_unused viscosity_unused3)

lemmas viscosity_unused_all =
  viscosity_unused viscosity_unused2 viscosity_unused3 viscosity_unused4

lemma sizePump_viscosity:
  assumes "sizePump i = Inr r" "sizePump (i\<lparr>inViscosity := v\<rparr>) = Inr r'"
  shows "r'\<lparr>reynolds := reynolds r, ch := ch r, ce := ce r\<rparr> = r"
  using assms
  by (auto simp: sizePump_def Let_def viscosity_unused_all calculateViscousCorrection_def
      split: option.splits)

lemma destructure_viscosity:
  assumes "destructure p = Some i" "destructure (p(''viscosity'' \<mapsto> x)) = Some i'"
  shows "i' = i\<lparr>inViscosity := inViscosity i'\<rparr>"
  using assms
  by (auto simp: destructure_def split: Option.bind_splits)

lemma example_payload_passes:
  "find (\<lambda>kv. finite_number (snd kv) = None) (numbers example_payload) = None"
  "find (\<lambda>kv. finite_number (snd kv) = None)
     (numbers (example_payload(''viscosity'' \<mapsto> JNumber (Fin 100)))) = None"
  by (simp_all add: numbers_def example_payload_def finite_number_def)

text \<open>
  C6. Two accepted payloads that differ only in \<open>viscosity\<close> get answers that agree on
  every field except \<open>reynolds\<close>, \<open>ch\<close> and \<open>ce\<close>: efficiency, hydraulic power, the
  performance curve, the warnings, the alternate estimate and all the others are the
  same.
\<close>

theorem viscosity_noninterference:
  assumes "handler p = Inr r" "handler (p(''viscosity'' \<mapsto> x)) = Inr r'"
  shows "r'\<lparr>reynolds := reynolds r, ch := ch r, ce := ce r\<rparr> = r"
proof -
  obtain i where i: "destructure p = Some i" "sizePump i = Inr r"
    using handler_Inr [OF assms(1)] by blast
  obtain i' where i': "destructure (p(''viscosity'' \<mapsto> x)) = Some i'" "sizePump i' = Inr r'"
    using handler_Inr [OF assms(2)] by blast
  have "i' = i\<lparr>inViscosity := inViscosity i'\<rparr>"
    using destructure_viscosity [OF i(1) i'(1)] .
  then have "sizePump (i\<lparr>inViscosity := inViscosity i'\<rparr>) = Inr r'"
    using i'(2) by simp
  then show ?thesis using sizePump_viscosity [OF i(2)] by blast
qed

theorem viscosity_noninterference_witness:
  "\<exists>r r'. handler example_payload = Inr r
     \<and> handler (example_payload(''viscosity'' \<mapsto> JNumber (Fin 100))) = Inr r'
     \<and> r'\<lparr>reynolds := reynolds r, ch := ch r, ce := ce r\<rparr> = r"
proof -
  obtain r where r: "handler example_payload = Inr r"
    using handler_accepts [OF example_payload_passes(1)] by blast
  obtain r' where r': "handler (example_payload(''viscosity'' \<mapsto> JNumber (Fin 100))) = Inr r'"
    using handler_accepts [OF example_payload_passes(2)] by blast
  show ?thesis using viscosity_noninterference [OF r r'] r r' by blast
qed

section \<open>The performance curve\<close>

lemma lagrangian_Fin:
  "lagrangianInterpolation (Fin p) c =
     Fin (coef_a c + coef_b c * p + coef_c c * p ^ 2 + coef_d c * p ^ 3
          + coef_e c * p ^ 4 + coef_f c * p ^ 5)"
  by (simp add: lagrangianInterpolation_def js_pow_numeral)

lemma powerDivisor_nonzero: "powerDivisor e \<noteq> Fin 0 \<and> powerDivisor e \<noteq> NaN"
  by (cases e) (auto simp: powerDivisor_def js_or_def inf_sgn_def)

lemma powerDivisor_zero_efficiency:
  "js_div e (Fin 100) = Fin 0 \<Longrightarrow> powerDivisor e = js_mul (Fin 367.63) (Fin 0.01)"
  by (simp add: powerDivisor_def js_or_def)

lemma powerDivisor_clamped:
  assumes "e = NaN \<or> (\<exists>c. e = Fin c)"
  shows "isFinite (powerDivisor e)"
  using assms by (auto simp: powerDivisor_def js_or_def)

lemma pointPower_finite:
  assumes "e = NaN \<or> (\<exists>c. e = Fin c)"
  shows "isFinite (pointPower (Fin f) (Fin h) (Fin s) e)"
  using powerDivisor_clamped [OF assms] powerDivisor_nonzero [of e]
  by (simp add: pointPower_def js_div_finite)

text \<open>The sequences of the curve, for the three coefficient rows of the band.\<close>

lemma generatePerformanceData_Some:
  assumes "generatePerformanceData q t e n k s = Some pd"
  shows "\<exists>hc ec nc.
    map_of head_coefficients k = Some hc \<and> map_of efficiency_coefficients k = Some ec
    \<and> map_of npsh_coefficients k = Some nc
    \<and> flowPoints pd = map (\<lambda>p. js_div (js_mul p q) (Fin 100))
         [Fin 0, Fin 25, Fin 50, Fin 75, Fin 100, Fin 130]
    \<and> headPoints pd = map (\<lambda>p. js_mul (lagrangianInterpolation p hc) (js_div t (Fin 100)))
         [Fin 0, Fin 25, Fin 50, Fin 75, Fin 100, Fin 130]
    \<and> efficiencyPoints pd = map (\<lambda>p. js_max (Fin 0) (js_min (Fin 100)
           (js_mul (lagrangianInterpolation p ec) e)))
         [Fin 0, Fin 25, Fin 50, Fin 75, Fin 100, Fin 130]
    \<and> powerPoints pd = map (\<lambda>j.
           if js_eq (flowPoints pd ! j) (Fin 0)
           then js_mul (Fin 0.9)
                  (pointPower (flowPoints pd ! 1) (headPoints pd ! 1) s (efficiencyPoints pd ! 1))
           else pointPower (flowPoints pd ! j) (headPoints pd ! j) s (efficiencyPoints pd ! j))
         [0 ..< 6]"
proof -
  obtain hc where h: "map_of head_coefficients k = Some hc"
    using assms by (cases "map_of head_coefficients k")
      (simp_all add: generatePerformanceData_def)
  obtain ec where e: "map_of efficiency_coefficients k = Some ec"
    using assms h by (cases "map_of efficiency_coefficients k")
      (simp_all add: generatePerformanceData_def)
  obtain nc where n: "map_of npsh_coefficients k = Some nc"
    using assms h e by (cases "map_of npsh_coefficients k")
      (simp_all add: generatePerformanceData_def)
  define F where "F = map (\<lambda>p. js_div (js_mul p q) (Fin 100))
         [Fin 0, Fin 25, Fin 50, Fin 75, Fin 100, Fin 130]"
  define H where "H = map (\<lambda>p. js_mul (lagrangianInterpolation p hc) (js_div t (Fin 100)))
         [Fin 0, Fin 25, Fin 50, Fin 75, Fin 100, Fin 130]"
  define E where "E = map (\<lambda>p. js_max (Fin 0) (js_min (Fin 100)
           (js_mul (lagrangianInterpolation p ec) e)))
         [Fin 0, Fin 25, Fin 50, Fin 75, Fin 100, Fin 130]"
  have len: "length F = 6" by (simp add: F_def)
  from assms have "Some pd = Some \<lparr>flowPoints = F, headPoints = H, efficiencyPoints = E,
      npshPoints = map (\<lambda>qPercent.
                   js_max (Fin 0)
                     (js_mul (lagrangianInterpolation qPercent nc)
                             (js_div n (Fin 100))))
         [Fin 0, Fin 25, Fin 50, Fin 75, Fin 100, Fin 130],
      powerPoints = map (\<lambda>j.
           if js_eq (F ! j) (Fin 0)
           then js_mul (Fin 0.9) (pointPower (F ! 1) (H ! 1) s (E ! 1))
           else pointPower (F ! j) (H ! j) s (E ! j))
         [0 ..< length F],
      flowPercentages = [Fin 0, Fin 25, Fin 50, Fin 75, Fin 100, Fin 130]\<rparr>"
    unfolding generatePerformanceData_def h e n Let_def F_def H_def E_def
    by (simp only: option.case prod.case)
  then have pd: "flowPoints pd = F" "headPoints pd = H" "efficiencyPoints pd = E"
    "powerPoints pd = map (\<lambda>j.
           if js_eq (F ! j) (Fin 0)
           then js_mul (Fin 0.9) (pointPower (F ! 1) (H ! 1) s (E ! 1))
           else pointPower (F ! j) (H ! j) s (E ! j))
         [0 ..< 6]"
    unfolding len by simp_all
  show ?thesis
    unfolding pd using h e n by (simp add: F_def H_def E_def)
qed

lemma powerPoints_nth:
  assumes "generatePerformanceData q t e n k s = Some pd" "j < 6"
  shows "powerPoints pd ! j =
          (if js_eq (flowPoints pd ! j) (Fin 0)
           then js_mul (Fin 0.9)
                  (pointPower (flowPoints pd ! 1) (headPoints pd ! 1) s (efficiencyPoints pd ! 1))
           else pointPower (flowPoints pd ! j) (headPoints pd ! j) s (efficiencyPoints pd ! j))"
proof -
  from generatePerformanceData_Some [OF assms(1)]
  have "powerPoints pd = map (\<lambda>j.
           if js_eq (flowPoints pd ! j) (Fin 0)
           then js_mul (Fin 0.9)
                  (pointPower (flowPoints pd ! 1) (headPoints pd ! 1) s (efficiencyPoints pd ! 1))
           else pointPower (flowPoints pd ! j) (headPoints pd ! j) s (efficiencyPoints pd ! j))
         [0 ..< 6]" by blast
  then show ?thesis using assms(2) by simp
qed

lemma flowPoints_nth:
  assumes "generatePerformanceData (Fin q) t e n k s = Some pd"
  shows "flowPoints pd ! 0 = Fin 0" "flowPoints pd ! 1 = Fin (25 * q / 100)"
    "flowPoints pd ! 2 = Fin (50 * q / 100)" "flowPoints pd ! 3 = Fin (75 * q / 100)"
    "flowPoints pd ! 4 = Fin (100 * q / 100)" "flowPoints pd ! 5 = Fin (130 * q / 100)"
proof -
  have "flowPoints pd = map (\<lambda>p. js_div (js_mul p (Fin q)) (Fin 100))
         [Fin 0, Fin 25, Fin 50, Fin 75, Fin 100, Fin 130]"
    using generatePerformanceData_Some [OF assms] by blast
  then show "flowPoints pd ! 0 = Fin 0" "flowPoints pd ! 1 = Fin (25 * q / 100)"
    "flowPoints pd ! 2 = Fin (50 * q / 100)" "flowPoints pd ! 3 = Fin (75 * q / 100)"
    "flowPoints pd ! 4 = Fin (100 * q / 100)" "flowPoints pd ! 5 = Fin (130 * q / 100)"
    by (simp_all add: numeral_eq_Suc)
qed

lemma curve_points_shape:
  assumes "generatePerformanceData (Fin q) (Fin t) e n k s = Some pd" "j < 6"
  shows "\<exists>f h. flowPoints pd ! j = Fin f \<and> headPoints pd ! j = Fin h
     \<and> (efficiencyPoints pd ! j = NaN \<or> (\<exists>c. efficiencyPoints pd ! j = Fin c))"
proof -
  obtain hc ec where pd:
    "flowPoints pd = map (\<lambda>p. js_div (js_mul p (Fin q)) (Fin 100))
         [Fin 0, Fin 25, Fin 50, Fin 75, Fin 100, Fin 130]"
    "headPoints pd = map (\<lambda>p. js_mul (lagrangianInterpolation p hc) (js_div (Fin t) (Fin 100)))
         [Fin 0, Fin 25, Fin 50, Fin 75, Fin 100, Fin 130]"
    "efficiencyPoints pd = map (\<lambda>p. js_max (Fin 0) (js_min (Fin 100)
           (js_mul (lagrangianInterpolation p ec) e)))
         [Fin 0, Fin 25, Fin 50, Fin 75, Fin 100, Fin 130]"
    using generatePerformanceData_Some [OF assms(1)] by blast
  let ?ps = "[Fin 0, Fin 25, Fin 50, Fin 75, Fin 100, Fin 130 :: jsnum]"
  have len: "j < length ?ps" using assms(2) by simp
  obtain p where p: "?ps ! j = Fin p"
    using assms(2) by (auto simp: less_Suc_eq numeral_eq_Suc)
  have "flowPoints pd ! j = Fin (p * q / 100)"
    unfolding pd(1) nth_map [OF len] p by simp
  moreover have "headPoints pd ! j = Fin ((coef_a hc + coef_b hc * p + coef_c hc * p ^ 2
      + coef_d hc * p ^ 3 + coef_e hc * p ^ 4 + coef_f hc * p ^ 5) * (t / 100))"
    unfolding pd(2) nth_map [OF len] p by (simp add: lagrangian_Fin)
  moreover have "efficiencyPoints pd ! j = NaN \<or> (\<exists>c. efficiencyPoints pd ! j = Fin c)"
    unfolding pd(3) nth_map [OF len] p using clamp_cases by blast
  ultimately show ?thesis by blast
qed

text \<open>
  In this model a product of finite values is finite, so the power points are finite;
  the double arithmetic of the program can overflow on very large inputs.
\<close>

lemma powerPoints_finite:
  assumes "generatePerformanceData (Fin q) (Fin t) e n k (Fin s) = Some pd" "j < 6"
  shows "isFinite (powerPoints pd ! j)"
proof -
  obtain f h where a: "flowPoints pd ! j = Fin f" "headPoints pd ! j = Fin h"
      "efficiencyPoints pd ! j = NaN \<or> (\<exists>c. efficiencyPoints pd ! j = Fin c)"
    using curve_points_shape [OF assms] by blast
  obtain f1 h1 where b: "flowPoints pd ! 1 = Fin f1" "headPoints pd ! 1 = Fin h1"
      "efficiencyPoints pd ! 1 = NaN \<or> (\<exists>c. efficiencyPoints pd ! 1 = Fin c)"
    using curve_points_shape [OF assms(1), of 1] by auto
  show ?thesis
    unfolding powerPoints_nth [OF assms] a(1,2) b(1,2)
    using pointPower_finite [OF a(3)] pointPower_finite [OF b(3)]
    by (simp add: isFinite_mul_09)
qed

lemma stage_1_curve_eq:
  "generatePerformanceData (Fin (inQ (stage_input 1))) (Fin (inTDHm (stage_input 1)))
     (Eff (stage_input 1)) (Fin (inNPSHA (stage_input 1))) ''Ns1''
     (Fin (inSG (stage_input 1))) = Some stage_1_curve"
proof -
  obtain r where r: "sizePump (stage_input 1) = Inr r" using sizePump_total by blast
  then have "stage_1_curve = performanceData r" by (simp add: stage_1_curve_def)
  with sizePump_performanceData [OF r] show ?thesis
    unfolding Nstatus_stage_input_1 by simp
qed

lemma stage_1_efficiency_25: "efficiencyPoints stage_1_curve ! 1 = Fin 0"
proof -
  obtain e where e: "e < 0" "Eff (stage_input 1) = Fin e"
    using Eff_stage_input_1 by blast
  obtain ec where ec: "map_of efficiency_coefficients ''Ns1'' = Some ec"
    "efficiencyPoints stage_1_curve = map (\<lambda>p. js_max (Fin 0) (js_min (Fin 100)
           (js_mul (lagrangianInterpolation p ec) (Eff (stage_input 1)))))
         [Fin 0, Fin 25, Fin 50, Fin 75, Fin 100, Fin 130]"
    using generatePerformanceData_Some [OF stage_1_curve_eq] by blast
  from ec(1) have row: "ec = \<lparr>coef_a = 0, coef_b = 2.4445788, coef_c = - 0.014159341,
        coef_d = - 0.00012353846, coef_e = 1.869011 / 10 ^ 6, coef_f = - 6.6227106 / 10 ^ 9\<rparr>"
    by (simp add: efficiency_coefficients_def)
  define c :: real where "c = 26112000487 / 512000000"
  have c: "0 < c" "lagrangianInterpolation (Fin 25) ec = Fin c"
    unfolding lagrangian_Fin row c_def by simp_all
  have "c * e < 0" using c(1) e(1) by (simp add: mult_pos_neg)
  then have "js_max (Fin 0) (js_min (Fin 100) (js_mul (Fin c) (Fin e))) = Fin 0"
    by (simp add: js_max_def js_min_def)
  then show ?thesis unfolding ec(2) by (simp add: c(2) e(2))
qed

text \<open>
  C9. The divisor of a power point, \<open>367.63 * (eff / 100 || 0.01)\<close>, is never zero and
  never NaN, whatever the efficiency value; when \<open>eff / 100\<close> is zero it is
  \<open>367.63 * 0.01\<close>. Every power point of the curve of a validated input is the
  quotient of \<open>flow * head * SG\<close> by that divisor, taken at the point's own efficiency,
  or, at a zero flow, 0.9 times that quotient for the 25 percent point; the divisor in
  it is neither zero nor NaN. The baseline power \<open>kW\<close> divides by \<open>367.63 * Eff\<close> as
  it is, and a quotient by \<open>367.63 * 0\<close> is never finite.
\<close>

theorem power_points_guarded:
  "powerDivisor e \<noteq> Fin 0 \<and> powerDivisor e \<noteq> NaN
   \<and> (js_div e (Fin 100) = Fin 0 \<longrightarrow> powerDivisor e = js_mul (Fin 367.63) (Fin 0.01))
   \<and> (\<forall>r. sizePump i = Inr r \<longrightarrow>
        (\<forall>j<6.
           powerPoints (performanceData r) ! j
             = (if js_eq (flowPoints (performanceData r) ! j) (Fin 0)
                then js_mul (Fin 0.9)
                  (js_div (js_mul (js_mul (flowPoints (performanceData r) ! 1)
                                          (headPoints (performanceData r) ! 1)) (Fin (inSG i)))
                          (powerDivisor (efficiencyPoints (performanceData r) ! 1)))
                else js_div (js_mul (js_mul (flowPoints (performanceData r) ! j)
                                            (headPoints (performanceData r) ! j)) (Fin (inSG i)))
                            (powerDivisor (efficiencyPoints (performanceData r) ! j)))
           \<and> powerDivisor (efficiencyPoints (performanceData r) ! j) \<noteq> Fin 0
           \<and> powerDivisor (efficiencyPoints (performanceData r) ! j) \<noteq> NaN
           \<and> powerDivisor (efficiencyPoints (performanceData r) ! 1) \<noteq> Fin 0
           \<and> powerDivisor (efficiencyPoints (performanceData r) ! 1) \<noteq> NaN))
   \<and> kW i = js_div (js_mul (js_mul (Fin (inQ i)) (Fin (inTDHm i))) (Fin (inSG i)))
                   (js_mul (Fin 367.63) (Eff i))
   \<and> \<not> isFinite (js_div x (js_mul (Fin 367.63) (Fin 0)))"
proof (intro conjI allI impI)
  show "kW i = js_div (js_mul (js_mul (Fin (inQ i)) (Fin (inTDHm i))) (Fin (inSG i)))
                   (js_mul (Fin 367.63) (Eff i))"
    by (rule kW_def)
  show "\<not> isFinite (js_div x (js_mul (Fin 367.63) (Fin 0)))"
    by (rule zero_divisor_not_finite)
next
  show "powerDivisor e \<noteq> Fin 0" "powerDivisor e \<noteq> NaN"
    using powerDivisor_nonzero [of e] by simp_all
next
  assume "js_div e (Fin 100) = Fin 0"
  then show "powerDivisor e = js_mul (Fin 367.63) (Fin 0.01)"
    by (rule powerDivisor_zero_efficiency)
next
  fix r j
  assume r: "sizePump i = Inr r" and j: "j < (6::nat)"
  note g = sizePump_performanceData [OF r]
  show "powerPoints (performanceData r) ! j
             = (if js_eq (flowPoints (performanceData r) ! j) (Fin 0)
                then js_mul (Fin 0.9)
                  (js_div (js_mul (js_mul (flowPoints (performanceData r) ! 1)
                                          (headPoints (performanceData r) ! 1)) (Fin (inSG i)))
                          (powerDivisor (efficiencyPoints (performanceData r) ! 1)))
                else js_div (js_mul (js_mul (flowPoints (performanceData r) ! j)
                                            (headPoints (performanceData r) ! j)) (Fin (inSG i)))
                            (powerDivisor (efficiencyPoints (performanceData r) ! j)))"
    unfolding powerPoints_nth [OF g j] pointPower_def by (rule refl)
  show "powerDivisor (efficiencyPoints (performanceData r) ! j) \<noteq> Fin 0"
    "powerDivisor (efficiencyPoints (performanceData r) ! j) \<noteq> NaN"
    using powerDivisor_nonzero [of "efficiencyPoints (performanceData r) ! j"] by simp_all
  show "powerDivisor (efficiencyPoints (performanceData r) ! 1) \<noteq> Fin 0"
    "powerDivisor (efficiencyPoints (performanceData r) ! 1) \<noteq> NaN"
    using powerDivisor_nonzero [of "efficiencyPoints (performanceData r) ! 1"] by simp_all
qed

text \<open>
  At \<open>stage_input 1\<close> the efficiency of the 25 percent point is clamped to 0, and the
  power of that point is the quotient by \<open>367.63 * 0.01 = 3.6763\<close>.
\<close>

theorem power_points_guarded_witness:
  "js_div (Fin 0) (Fin 100) = Fin 0 \<and> powerDivisor (Fin 0) = Fin 3.6763
   \<and> (\<exists>r. sizePump (stage_input 1) = Inr r
        \<and> efficiencyPoints (performanceData r) ! 1 = Fin 0
        \<and> powerPoints (performanceData r) ! 1
            = js_div (js_mul (js_mul (flowPoints (performanceData r) ! 1)
                                     (headPoints (performanceData r) ! 1))
                             (Fin (inSG (stage_input 1))))
                     (Fin 3.6763))"
proof -
  obtain r where r: "sizePump (stage_input 1) = Inr r" using sizePump_total by blast
  have z: "js_div (Fin 0) (Fin 100) = Fin 0" by simp
  have d: "powerDivisor (Fin 0) = Fin 3.6763"
    using power_points_guarded [of "Fin 0" "stage_input 1"] z by simp
  have c: "performanceData r = stage_1_curve" by (simp add: stage_1_curve_def r)
  have e: "efficiencyPoints (performanceData r) ! 1 = Fin 0"
    unfolding c by (rule stage_1_efficiency_25)
  have f: "\<not> js_eq (flowPoints (performanceData r) ! 1) (Fin 0)"
    using flowPoints_nth(2) [OF sizePump_performanceData [OF r]]
    by (simp add: js_eq_def stage_input_def)
  have one: "(1::nat) < 6" by simp
  have "powerPoints (performanceData r) ! 1
      = (if js_eq (flowPoints (performanceData r) ! 1) (Fin 0)
         then js_mul (Fin 0.9)
           (js_div (js_mul (js_mul (flowPoints (performanceData r) ! 1)
                                   (headPoints (performanceData r) ! 1))
                           (Fin (inSG (stage_input 1))))
                   (powerDivisor (efficiencyPoints (performanceData r) ! 1)))
         else js_div (js_mul (js_mul (flowPoints (performanceData r) ! 1)
                                     (headPoints (performanceData r) ! 1))
                             (Fin (inSG (stage_input 1))))
                     (powerDivisor (efficiencyPoints (performanceData r) ! 1)))"
    using power_points_guarded [of "Fin 0" "stage_input 1"] r one by blast
  then have "powerPoints (performanceData r) ! 1
            = js_div (js_mul (js_mul (flowPoints (performanceData r) ! 1)
                                     (headPoints (performanceData r) ! 1))
                             (Fin (inSG (stage_input 1))))
                     (Fin 3.6763)"
    unfolding e d using f by simp
  with r z d e show ?thesis by blast
qed

text \<open>
  C7, as amended. For a validated input with nonzero flow, the power at each of the
  flow fractions 25, 50, 75, 100 and 130 percent is
  \<open>flow * head * SG / (367.63 * d)\<close> with that point's flow and head, where \<open>d\<close> is the
  point's clamped efficiency divided by 100, replaced by 0.01 when that quotient is
  zero or NaN; and the power at zero flow is 0.9 times the power at 25 percent.
\<close>

theorem power_point_formula:
  assumes "sizePump i = Inr r" "inQ i \<noteq> 0" "j \<in> {1, 2, 3, 4, 5}"
  shows "powerPoints (performanceData r) ! j =
           js_div (js_mul (js_mul (flowPoints (performanceData r) ! j)
                                  (headPoints (performanceData r) ! j)) (Fin (inSG i)))
             (js_mul (Fin 367.63)
                (if js_div (efficiencyPoints (performanceData r) ! j) (Fin 100) = Fin 0
                    \<or> js_div (efficiencyPoints (performanceData r) ! j) (Fin 100) = NaN
                 then Fin 0.01
                 else js_div (efficiencyPoints (performanceData r) ! j) (Fin 100)))
         \<and> powerPoints (performanceData r) ! 0
             = js_mul (Fin 0.9) (powerPoints (performanceData r) ! 1)"
proof -
  note g = sizePump_performanceData [OF assms(1)]
  note f = flowPoints_nth [OF g]
  have j6: "j < 6" using assms(3) by auto
  have nz: "\<not> js_eq (flowPoints (performanceData r) ! j) (Fin 0)"
    using assms(2,3) f by (auto simp: js_eq_def)
  have nz1: "\<not> js_eq (flowPoints (performanceData r) ! 1) (Fin 0)"
    using assms(2) f by (auto simp: js_eq_def)
  have z0: "js_eq (flowPoints (performanceData r) ! 0) (Fin 0)"
    using f by (simp add: js_eq_def)
  have a: "powerPoints (performanceData r) ! j
      = pointPower (flowPoints (performanceData r) ! j) (headPoints (performanceData r) ! j)
          (Fin (inSG i)) (efficiencyPoints (performanceData r) ! j)"
    unfolding powerPoints_nth [OF g j6] using nz by simp
  have b: "powerPoints (performanceData r) ! 1
      = pointPower (flowPoints (performanceData r) ! 1) (headPoints (performanceData r) ! 1)
          (Fin (inSG i)) (efficiencyPoints (performanceData r) ! 1)"
    using powerPoints_nth [OF g, of 1] nz1 by simp
  have c: "powerPoints (performanceData r) ! 0
      = js_mul (Fin 0.9) (pointPower (flowPoints (performanceData r) ! 1)
          (headPoints (performanceData r) ! 1)
          (Fin (inSG i)) (efficiencyPoints (performanceData r) ! 1))"
    using powerPoints_nth [OF g, of 0] z0 by simp
  show ?thesis
    unfolding a c b [symmetric]
    by (simp add: pointPower_def powerDivisor_def js_or_cases)
qed

theorem power_point_formula_witness:
  "inQ (stage_input 1) \<noteq> 0 \<and> (1::nat) \<in> {1, 2, 3, 4, 5}
   \<and> (\<exists>r. sizePump (stage_input 1) = Inr r
        \<and> powerPoints (performanceData r) ! 0
            = js_mul (Fin 0.9) (powerPoints (performanceData r) ! 1))"
proof -
  obtain r where r: "sizePump (stage_input 1) = Inr r" using sizePump_total by blast
  have q: "inQ (stage_input 1) \<noteq> 0" by (simp add: stage_input_def)
  have j: "(1::nat) \<in> {1, 2, 3, 4, 5}" by simp
  show ?thesis using power_point_formula [OF r q j] r q by blast
qed

text \<open>
  C7 as stated fails where a clamped efficiency is zero: for \<open>stage_input 1\<close> the
  baseline efficiency is negative, the efficiency of the 25 percent point is clamped
  to 0, and the power of that point is finite, while the formula with the point's own
  efficiency divides by zero.
\<close>

theorem zero_efficiency_power_point:
  "efficiencyPoints stage_1_curve ! 1 = Fin 0
   \<and> powerPoints stage_1_curve ! 1 \<noteq>
       js_div (js_mul (js_mul (flowPoints stage_1_curve ! 1) (headPoints stage_1_curve ! 1))
                (Fin (inSG (stage_input 1))))
         (js_mul (Fin 367.63) (js_div (efficiencyPoints stage_1_curve ! 1) (Fin 100)))"
proof -
  have fin: "isFinite (powerPoints stage_1_curve ! 1)"
    by (rule powerPoints_finite [OF stage_1_curve_eq]) simp
  obtain f h where fh: "flowPoints stage_1_curve ! 1 = Fin f" "headPoints stage_1_curve ! 1 = Fin h"
    using curve_points_shape [OF stage_1_curve_eq, of 1] by auto
  have "\<not> isFinite (js_div (js_mul (js_mul (flowPoints stage_1_curve ! 1)
                (headPoints stage_1_curve ! 1)) (Fin (inSG (stage_input 1))))
         (js_mul (Fin 367.63) (js_div (efficiencyPoints stage_1_curve ! 1) (Fin 100))))"
    unfolding stage_1_efficiency_25 fh by (simp add: inf_sgn_not_finite)
  with fin stage_1_efficiency_25 show ?thesis by metis
qed

section \<open>The alternate hydraulic power\<close>

lemma alternate_hydpower:
  assumes "sizePump i = Inr r" "newPumpTrigger (Fin (inQ i)) (Ns i)"
    "newEfficiencyPercent (Ns i) (Fin (inQ i)) (Eff i) = Fin 0"
    "0 < inQ i * inTDHm i * inSG i"
  shows "\<exists>np. newPumpPerformance r = Some np \<and> np_efficiency np = Fin 0
           \<and> np_hydpower np = PInf"
proof -
  define x where "x = inQ i * inTDHm i * inSG i"
  have "js_mul (js_mul (Fin (inQ i)) (Fin (inTDHm i))) (Fin (inSG i)) = Fin x"
    by (simp add: x_def)
  moreover have "js_div (Fin x) (js_mul (Fin 367.63) (js_div (Fin 0) (Fin 100))) = PInf"
    using assms(4) by (simp add: x_def [symmetric] inf_sgn_def)
  ultimately show ?thesis
    using assms(2,3) unfolding sizePump_newPumpPerformance [OF assms(1)]
    by (simp add: calculateNewPumpPerformance_def Let_def toFixed_simps)
qed

lemma newEfficiencyPercent_stage_input_1:
  "newEfficiencyPercent (Ns (stage_input 1)) (Fin (inQ (stage_input 1))) (Eff (stage_input 1))
     = Fin 0"
proof -
  obtain e where e: "e < 0" "Eff (stage_input 1) = Fin e"
    using Eff_stage_input_1 by blast
  have "e * 100 - 9.89 < 0" using e(1) by simp
  then have "js_max (Fin 0) (js_min (Fin 100) (Fin (e * 100 - 9.89))) = Fin 0"
    by (simp add: js_max_def js_min_def)
  then show ?thesis
    unfolding newEfficiencyPercent_def Ns_stage_input_1 e(2)
    by (simp add: stage_input_def js_gt_def js_sub_def)
qed

lemma newEfficiencyPercent_small_flow_input:
  "newEfficiencyPercent (Ns small_flow_input) (Fin (inQ small_flow_input)) x = Fin 0"
  unfolding newEfficiencyPercent_def Ns_small_flow_input js_pow_numeral
  by (simp add: small_flow_input_def js_gt_def js_sub_def js_max_def js_min_def
      power_divide)

text \<open>
  C10. Two validated inputs that trigger the alternate estimate, get the new
  efficiency 0 after clamping and the alternate hydraulic power \<open>+\<infinity>\<close>, from the
  division by \<open>367.63 * (0 / 100)\<close>: \<open>stage_input 1\<close>, on the branch
  \<open>20 < flow < 61\<close> with a baseline efficiency below 9.89 percent, and
  \<open>small_flow_input\<close>, on the branch \<open>flow \<le> 20\<close> where the polynomial in \<open>Ns\<close> is
  negative.
\<close>

theorem alternate_power_division_by_zero:
  "(\<exists>r np. handler (payload_of (stage_input 1)) = Inr r
       \<and> newPumpTrigger (Fin (inQ (stage_input 1))) (Ns (stage_input 1))
       \<and> newPumpPerformance r = Some np \<and> np_efficiency np = Fin 0
       \<and> np_hydpower np = PInf)
   \<and> (\<exists>r np. handler (payload_of small_flow_input) = Inr r
       \<and> newPumpTrigger (Fin (inQ small_flow_input)) (Ns small_flow_input)
       \<and> newPumpPerformance r = Some np \<and> np_efficiency np = Fin 0
       \<and> np_hydpower np = PInf)"
proof (intro conjI)
  obtain r where r: "sizePump (stage_input 1) = Inr r" using sizePump_total by blast
  have t: "newPumpTrigger (Fin (inQ (stage_input 1))) (Ns (stage_input 1))"
    unfolding Ns_stage_input_1 by (simp add: newPumpTrigger_def stage_input_def js_gt_def)
  have p: "0 < inQ (stage_input 1) * inTDHm (stage_input 1) * inSG (stage_input 1)"
    by (simp add: stage_input_def)
  show "\<exists>r np. handler (payload_of (stage_input 1)) = Inr r
       \<and> newPumpTrigger (Fin (inQ (stage_input 1))) (Ns (stage_input 1))
       \<and> newPumpPerformance r = Some np \<and> np_efficiency np = Fin 0
       \<and> np_hydpower np = PInf"
    using alternate_hydpower [OF r t newEfficiencyPercent_stage_input_1 p] r t
    unfolding handler_payload_of by blast
next
  obtain r where r: "sizePump small_flow_input = Inr r" using sizePump_total by blast
  have t: "newPumpTrigger (Fin (inQ small_flow_input)) (Ns small_flow_input)"
    unfolding Ns_small_flow_input
    by (simp add: newPumpTrigger_def small_flow_input_def js_gt_def)
  have p: "0 < inQ small_flow_input * inTDHm small_flow_input * inSG small_flow_input"
    by (simp add: small_flow_input_def)
  show "\<exists>r np. handler (payload_of small_flow_input) = Inr r
       \<and> newPumpTrigger (Fin (inQ small_flow_input)) (Ns small_flow_input)
       \<and> newPumpPerformance r = Some np \<and> np_efficiency np = Fin 0
       \<and> np_hydpower np = PInf"
    using alternate_hydpower [OF r t newEfficiencyPercent_small_flow_input p] r t
    unfolding handler_payload_of by blast
qed

theorem alternate_power_division_by_zero_witness:
  "\<exists>r np. handler (payload_of small_flow_input) = Inr r
     \<and> newPumpPerformance r = Some np \<and> \<not> isFinite (np_hydpower np)"
  using alternate_power_division_by_zero by auto

end
